theory Spec2Isabelle
  imports Main "HOL-Library.AList"
begin

section \<open>JavaScript values, strings and thrown errors\<close>

text \<open>
  The plugin is TypeScript. A value whose type is not fixed by the code (the argument of
  \<open>escapeLikeWildcards\<close>, the values interpolated into an error message) is a
  \<open>js_value\<close>; a JavaScript string is a \<open>string\<close>, its characters beyond
  ASCII written in UTF-8 (the separators the code splits on are ASCII, and no byte of a
  longer UTF-8 sequence is). A \<open>throw\<close> is a value: the thrown \<open>Error\<close> object with
  its message and the own properties that \<open>Object.assign\<close> copied onto it.
\<close>

datatype js_value =
    JSUndefined
  | JSNull
  | JSBoolean bool
  | JSNumber int
  | JSString string
  | JSObject "(string \<times> js_value) list"

record js_error =
  message :: string
  assigned :: "(string \<times> js_value) list"

definition new_Error :: "string \<Rightarrow> js_error" where
  "new_Error msg = \<lparr>message = msg, assigned = []\<rparr>"

definition Object_assign :: "js_error \<Rightarrow> (string \<times> js_value) list \<Rightarrow> js_error" where
  "Object_assign e props = e\<lparr>assigned := assigned e @ props\<rparr>"

text \<open>\<open>String.prototype.split\<close> with a separator of one code unit, and \<open>Array.prototype.join\<close>.\<close>

fun js_split :: "char \<Rightarrow> string \<Rightarrow> string list" where
  "js_split sep [] = [[]]"
| "js_split sep (c # cs) =
     (if c = sep then [] # js_split sep cs
      else (case js_split sep cs of
              [] \<Rightarrow> [[c]]
            | p # ps \<Rightarrow> (c # p) # ps))"

fun js_join :: "string \<Rightarrow> string list \<Rightarrow> string" where
  "js_join sep [] = []"
| "js_join sep [x] = x"
| "js_join sep (x # y # ys) = x @ sep @ js_join sep (y # ys)"

definition backslash :: char where
  "backslash = CHR 0x5C"

section \<open>Type descriptors (codecs) and the collaborators of the build\<close>

text \<open>
  A codec of \<open>@dataplan/pg\<close> with the members the plugin reads. \<open>columns\<close> is
  present for a composite type; \<open>polymorphism\<close> records whether that member is
  present; \<open>arrayOfCodec\<close>, \<open>rangeOfCodec\<close> and \<open>domainOfCodec\<close> are the wrapped
  codec when the codec is such a wrapper; \<open>extensions\<close> holds the behavior specs
  declared on the codec. Codecs are compared by \<open>===\<close> in the source; here two codecs
  are the same when all their members are.
\<close>

type_synonym behavior = "string list"

datatype pg_codec = PgCodec
    (name: string)
    (columns: "(string \<times> pg_column) list option")
    (isAnonymous: bool)
    (polymorphism: bool)
    (arrayOfCodec: "pg_codec option")
    (rangeOfCodec: "pg_codec option")
    (domainOfCodec: "pg_codec option")
    (extensions: behavior)
and pg_column = PgColumn
    (column_codec: pg_codec)
    (column_extensions: behavior)

text \<open>
  What the plugin imports from \<open>@dataplan/pg\<close>: the codecs of the \<open>TYPES\<close> table it
  names, \<open>getInnerCodec\<close> and \<open>isEnumCodec\<close>. None of them is in this repository, so
  they are parameters of the model.
\<close>

record dataplan_pg =
  TYPES_void :: pg_codec
  TYPES_json :: pg_codec
  TYPES_bpchar :: pg_codec
  TYPES_char :: pg_codec
  TYPES_name :: pg_codec
  TYPES_text :: pg_codec
  TYPES_varchar :: pg_codec
  TYPES_citext :: pg_codec
  getInnerCodec :: "pg_codec \<Rightarrow> pg_codec option"
  isEnumCodec :: "pg_codec \<Rightarrow> bool"

datatype situation = Output | Input

datatype type_meta = TypeMeta string

datatype graphql_type = GraphQLNamedType (type_name: string)

text \<open>The union type \<open>OperatorsCategory\<close> of \<open>./interfaces\<close>.\<close>

datatype OperatorsCategory = Array | Range | Enum | Domain | Scalar

text \<open>The digest \<open>connectionFilterOperatorsDigest\<close> returns for a filterable codec.\<close>

record filter_digest =
  isList :: bool
  operatorsTypeName :: string
  relatedTypeName :: string
  inputTypeName :: string
  rangeElementInputTypeName :: "string option"
  domainBaseTypeName :: "string option"

text \<open>
  The part of \<open>build\<close> the hooks read: the name and type lookups of the host, the
  inflectors, the behavior resolver and the options of the plugin. All of it belongs
  to the schema-build host, so it is a parameter.
\<close>

record build =
  getGraphQLTypeNameByPgCodec :: "pg_codec \<Rightarrow> situation \<Rightarrow> string option"
  getTypeMetaByName :: "string \<Rightarrow> type_meta option"
  getGraphQLTypeByPgCodec :: "pg_codec \<Rightarrow> situation \<Rightarrow> graphql_type option"
  getTypeByName :: "string \<Rightarrow> graphql_type option"
  inflection_filterType :: "string \<Rightarrow> string"
  inflection_filterFieldType :: "string \<Rightarrow> string"
  inflection_filterFieldListType :: "string \<Rightarrow> string"
  inflection_column :: "pg_codec \<Rightarrow> string \<Rightarrow> string"
  pgGetBehavior :: "behavior list \<Rightarrow> behavior"
  behavior_matches :: "behavior \<Rightarrow> string \<Rightarrow> string \<Rightarrow> bool"
  allPgCodecs :: "pg_codec list"
  connectionFilterAllowedFieldTypes :: "string list option"
  connectionFilterArrays :: bool
  connectionFilterSetofFunctions :: bool
  connectionFilterAllowNullInput :: bool
  connectionFilterAllowEmptyObjectInput :: bool

section \<open>The classifier: \<open>connectionFilterOperatorsDigest\<close>\<close>

fun isSuitableForFiltering :: "dataplan_pg \<Rightarrow> pg_codec \<Rightarrow> bool" where
  "isSuitableForFiltering pg (PgCodec n cols anon poly arr rng dmn ext) =
     (PgCodec n cols anon poly arr rng dmn ext \<noteq> TYPES_void pg \<and>
      cols = None \<and>
      \<not> anon \<and>
      arr = None \<and>
      \<not> poly \<and>
      (case dmn of None \<Rightarrow> True | Some d \<Rightarrow> isSuitableForFiltering pg d))"

text \<open>The local constant \<open>pgConnectionFilterOperatorsCategory\<close>: the first branch that applies.\<close>

definition pgConnectionFilterOperatorsCategory ::
  "dataplan_pg \<Rightarrow> pg_codec \<Rightarrow> OperatorsCategory" where
  "pgConnectionFilterOperatorsCategory pg codec =
     (if arrayOfCodec codec \<noteq> None then Array
      else if rangeOfCodec codec \<noteq> None then Range
      else if isEnumCodec pg codec then Enum
      else if domainOfCodec codec \<noteq> None then Domain
      else Scalar)"

definition actualStringCodecs :: "dataplan_pg \<Rightarrow> pg_codec list" where
  "actualStringCodecs pg =
     [TYPES_bpchar pg, TYPES_char pg, TYPES_name pg, TYPES_text pg, TYPES_varchar pg,
      TYPES_citext pg]"

text \<open>
  A name the host does not resolve is \<open>None\<close>; the source tests names for truthiness,
  so the empty string is rejected as well.
\<close>

definition connectionFilterOperatorsDigest ::
  "dataplan_pg \<Rightarrow> build \<Rightarrow> pg_codec \<Rightarrow> filter_digest option" where
  "connectionFilterOperatorsDigest pg build codec =
     (if \<not> isSuitableForFiltering pg codec then None
      else (case getInnerCodec pg codec of
        None \<Rightarrow> None
      | Some pgSimpleCodec \<Rightarrow>
        if polymorphism pgSimpleCodec \<or> columns pgSimpleCodec \<noteq> None
            \<or> isAnonymous pgSimpleCodec then None
        else if pgSimpleCodec = TYPES_json pg then None
        else
          let itemCodec = (case arrayOfCodec codec of Some a \<Rightarrow> a | None \<Rightarrow> codec) in
          (case getGraphQLTypeNameByPgCodec build itemCodec Output of
            None \<Rightarrow> None
          | Some fieldTypeName \<Rightarrow>
            if fieldTypeName = [] then None
            else (case getTypeMetaByName build fieldTypeName of
              None \<Rightarrow> None
            | Some fieldTypeMeta \<Rightarrow>
              (case getGraphQLTypeNameByPgCodec build itemCodec Input of
                None \<Rightarrow> None
              | Some fieldInputTypeName \<Rightarrow>
                if fieldInputTypeName = [] then None
                else (case getTypeMetaByName build fieldInputTypeName of
                  None \<Rightarrow> None
                | Some fieldInputTypeMeta \<Rightarrow>
                  let namedTypeName = fieldTypeName;
                      namedInputTypeName = fieldInputTypeName in
                  if namedInputTypeName = ''String''
                      \<and> pgSimpleCodec \<notin> set (actualStringCodecs pg) then None
                  else if (case connectionFilterAllowedFieldTypes build of
                             None \<Rightarrow> False
                           | Some allowed \<Rightarrow> namedTypeName \<notin> set allowed) then None
                  else if pgConnectionFilterOperatorsCategory pg codec = Array
                      \<and> \<not> connectionFilterArrays build then None
                  else
                    let rangeElementInputTypeName' =
                          (case rangeOfCodec codec of
                             Some r \<Rightarrow> getGraphQLTypeNameByPgCodec build r Input
                           | None \<Rightarrow> None);
                        domainBaseTypeName' =
                          (case domainOfCodec codec of
                             Some d \<Rightarrow> getGraphQLTypeNameByPgCodec build d Output
                           | None \<Rightarrow> None);
                        listType =
                          (arrayOfCodec codec \<noteq> None
                           \<or> (case rangeOfCodec codec of
                                 Some r \<Rightarrow> arrayOfCodec r \<noteq> None
                               | None \<Rightarrow> False));
                        operatorsTypeName' =
                          (if listType then inflection_filterFieldListType build namedTypeName
                           else inflection_filterFieldType build namedTypeName)
                    in Some \<lparr>isList = listType,
                             operatorsTypeName = operatorsTypeName',
                             relatedTypeName = namedTypeName,
                             inputTypeName = fieldInputTypeName,
                             rangeElementInputTypeName = rangeElementInputTypeName',
                             domainBaseTypeName = domainBaseTypeName'\<rparr>))))))"

text \<open>
  The classifier puts a codec in a category when it returns a digest for the codec and
  the category expression, on that codec, gives the category.
\<close>

definition classifiedAs ::
  "dataplan_pg \<Rightarrow> build \<Rightarrow> pg_codec \<Rightarrow> OperatorsCategory \<Rightarrow> bool" where
  "classifiedAs pg build codec cat =
     (connectionFilterOperatorsDigest pg build codec \<noteq> None
      \<and> pgConnectionFilterOperatorsCategory pg codec = cat)"

section \<open>The registry of operator groups: the \<open>init\<close> hook\<close>

text \<open>
  An entry of \<open>codecsByFilterTypeName\<close>. The object is keyed by operator type names
  and keeps the order in which the keys were inserted, so it is an association list.
  The keys are the type names the inflectors make (\<open>IntFilter\<close>, \<open>IntListFilter\<close>):
  the model takes it that none of them is a member every object inherits
  (\<open>constructor\<close>, \<open>toString\<close>), which the lookup of the source would find, nor an
  integer index, which \<open>Object.entries\<close> would move to the front.
\<close>

record operator_group =
  grp_isList :: bool
  grp_relatedTypeName :: string
  pgCodecs :: "pg_codec list"
  grp_inputTypeName :: string
  grp_rangeElementInputTypeName :: "string option"
  grp_domainBaseTypeName :: "string option"

type_synonym registry = "(string \<times> operator_group) list"

text \<open>
  \<open>digest[key]\<close> and \<open>codecsByFilterTypeName[operatorsTypeName][key]\<close> for the keys the
  loop goes through: a boolean, a string or \<open>null\<close>; and the text a template literal
  makes of such a value.
\<close>

datatype attr_value = AttrBoolean bool | AttrString string | AttrNull | AttrUndefined

definition digest_member :: "filter_digest \<Rightarrow> string \<Rightarrow> attr_value" where
  "digest_member digest key =
     (if key = ''isList'' then AttrBoolean (isList digest)
      else if key = ''relatedTypeName'' then AttrString (relatedTypeName digest)
      else if key = ''inputTypeName'' then AttrString (inputTypeName digest)
      else if key = ''rangeElementInputTypeName'' then
        (case rangeElementInputTypeName digest of
           None \<Rightarrow> AttrNull
         | Some n \<Rightarrow> AttrString n)
      else AttrUndefined)"

definition group_member :: "operator_group \<Rightarrow> string \<Rightarrow> attr_value" where
  "group_member existing key =
     (if key = ''isList'' then AttrBoolean (grp_isList existing)
      else if key = ''relatedTypeName'' then AttrString (grp_relatedTypeName existing)
      else if key = ''inputTypeName'' then AttrString (grp_inputTypeName existing)
      else if key = ''rangeElementInputTypeName'' then
        (case grp_rangeElementInputTypeName existing of
           None \<Rightarrow> AttrNull
         | Some n \<Rightarrow> AttrString n)
      else AttrUndefined)"

definition template_text :: "attr_value \<Rightarrow> string" where
  "template_text v =
     (case v of
        AttrBoolean b \<Rightarrow> (if b then ''true'' else ''false'')
      | AttrString s \<Rightarrow> s
      | AttrNull \<Rightarrow> ''null''
      | AttrUndefined \<Rightarrow> ''undefined'')"

definition checkedKeys :: "string list" where
  "checkedKeys = [''isList'', ''relatedTypeName'', ''inputTypeName'',
                  ''rangeElementInputTypeName'']"

definition mismatch_message ::
  "string \<Rightarrow> pg_codec list \<Rightarrow> attr_value \<Rightarrow> pg_codec \<Rightarrow> attr_value \<Rightarrow> string" where
  "mismatch_message key existingCodecs existingValue codec newValue =
     key @ '' mismatch: existing codecs ('' @ js_join '', '' (map name existingCodecs)
       @ '') had '' @ key @ '' = '' @ template_text existingValue
       @ '', but '' @ name codec @ '' instead has '' @ key @ '' = ''
       @ template_text newValue"

text \<open>The inner loop over the keys: the first key on which the values differ throws.\<close>

fun check_keys ::
  "string list \<Rightarrow> filter_digest \<Rightarrow> operator_group \<Rightarrow> pg_codec \<Rightarrow> js_error option" where
  "check_keys [] digest existing codec = None"
| "check_keys (key # keys) digest existing codec =
     (if digest_member digest key \<noteq> group_member existing key then
        Some (new_Error (mismatch_message key (pgCodecs existing)
                (group_member existing key) codec (digest_member digest key)))
      else check_keys keys digest existing codec)"

text \<open>One turn of the loop over \<open>build.allPgCodecs\<close>.\<close>

definition register_codec ::
  "dataplan_pg \<Rightarrow> build \<Rightarrow> registry \<Rightarrow> pg_codec \<Rightarrow> js_error + registry" where
  "register_codec pg build byName codec =
     (case connectionFilterOperatorsDigest pg build codec of
        None \<Rightarrow> Inr byName
      | Some digest \<Rightarrow>
          (case map_of byName (operatorsTypeName digest) of
             None \<Rightarrow>
               Inr (AList.update (operatorsTypeName digest)
                      \<lparr>grp_isList = isList digest,
                       grp_relatedTypeName = relatedTypeName digest,
                       pgCodecs = [codec],
                       grp_inputTypeName = inputTypeName digest,
                       grp_rangeElementInputTypeName = rangeElementInputTypeName digest,
                       grp_domainBaseTypeName = domainBaseTypeName digest\<rparr>
                      byName)
           | Some existing \<Rightarrow>
               (case check_keys checkedKeys digest existing codec of
                  Some e \<Rightarrow> Inl e
                | None \<Rightarrow>
                    Inr (AList.update (operatorsTypeName digest)
                           (existing\<lparr>pgCodecs := pgCodecs existing @ [codec]\<rparr>)
                           byName))))"

fun register_codecs ::
  "dataplan_pg \<Rightarrow> build \<Rightarrow> registry \<Rightarrow> pg_codec list \<Rightarrow> js_error + registry" where
  "register_codecs pg build byName [] = Inr byName"
| "register_codecs pg build byName (codec # codecs) =
     (case register_codec pg build byName codec of
        Inl e \<Rightarrow> Inl e
      | Inr byName' \<Rightarrow> register_codecs pg build byName' codecs)"

definition codecsByFilterTypeName :: "dataplan_pg \<Rightarrow> build \<Rightarrow> js_error + registry" where
  "codecsByFilterTypeName pg build = register_codecs pg build [] (allPgCodecs build)"

text \<open>
  What \<open>build.registerInputObjectType\<close> is called with: the name, the scope, the
  description and the origin. The host's registration itself is not in this repository;
  the hook's effect is the list of these calls, in order.
\<close>

datatype registration_scope =
    FilterScope pg_codec
  | OperatorsScope "pg_codec list" string "string option" "string option"

record registration =
  reg_typeName :: string
  reg_scope :: registration_scope
  reg_description :: string
  reg_origin :: string

definition lsquo :: string where
  "lsquo = [CHR 0xE2, CHR 0x80, CHR 0x98]"

definition rsquo :: string where
  "rsquo = [CHR 0xE2, CHR 0x80, CHR 0x99]"

definition backtick :: char where
  "backtick = CHR 0x60"

text \<open>The first loop of \<open>init\<close>: a filter type for every named composite codec.\<close>

fun register_filter_types :: "build \<Rightarrow> pg_codec list \<Rightarrow> registration list" where
  "register_filter_types build [] = []"
| "register_filter_types build (pgCodec # rest) =
     (if columns pgCodec = None \<or> isAnonymous pgCodec then register_filter_types build rest
      else (case getGraphQLTypeNameByPgCodec build pgCodec Output of
              None \<Rightarrow> register_filter_types build rest
            | Some nodeTypeName \<Rightarrow>
                if nodeTypeName = [] then register_filter_types build rest
                else
                  \<lparr>reg_typeName = inflection_filterType build nodeTypeName,
                   reg_scope = FilterScope pgCodec,
                   reg_description =
                     ''A filter to be used against '' @ [backtick] @ nodeTypeName @ [backtick]
                       @ '' object types. All fields are combined with a logical ''
                       @ lsquo @ ''and.'' @ rsquo,
                   reg_origin = ''PgConnectionArgFilterPlugin''\<rparr>
                  # register_filter_types build rest))"

text \<open>The last loop of \<open>init\<close>: one operator input type for every entry of the registry.\<close>

definition register_operator_type :: "string \<times> operator_group \<Rightarrow> registration" where
  "register_operator_type entry =
     (case entry of (operatorsTypeName', grp) \<Rightarrow>
        \<lparr>reg_typeName = operatorsTypeName',
         reg_scope = OperatorsScope (pgCodecs grp) (grp_inputTypeName grp)
                       (grp_rangeElementInputTypeName grp) (grp_domainBaseTypeName grp),
         reg_description =
           ''A filter to be used against '' @ grp_relatedTypeName grp
             @ (if grp_isList grp then '' List'' else [])
             @ '' fields. All fields are combined with a logical '' @ lsquo @ ''and.'' @ rsquo,
         reg_origin = ''PgConnectionArgFilterPlugin''\<rparr>)"

text \<open>
  The \<open>init\<close> callback: the registrations it made, and the error it threw if the
  registry found a mismatch (the filter types of the first loop are registered by then).
\<close>

definition init :: "dataplan_pg \<Rightarrow> build \<Rightarrow> js_error option \<times> registration list" where
  "init pg build =
     (let filterTypes = register_filter_types build (allPgCodecs build) in
      case codecsByFilterTypeName pg build of
        Inl e \<Rightarrow> (Some e, filterTypes)
      | Inr groups \<Rightarrow> (None, filterTypes @ map register_operator_type groups))"

text \<open>
  For stating what the registry holds: whether the classifier sends a codec to the
  operator type name \<open>k\<close>, and the group a digest founds.
\<close>

definition digest_names ::
  "dataplan_pg \<Rightarrow> build \<Rightarrow> string \<Rightarrow> pg_codec \<Rightarrow> bool" where
  "digest_names pg build k codec =
     (case connectionFilterOperatorsDigest pg build codec of
        None \<Rightarrow> False
      | Some digest \<Rightarrow> operatorsTypeName digest = k)"

definition group_of :: "filter_digest \<Rightarrow> pg_codec list \<Rightarrow> operator_group" where
  "group_of digest members =
     \<lparr>grp_isList = isList digest,
      grp_relatedTypeName = relatedTypeName digest,
      pgCodecs = members,
      grp_inputTypeName = inputTypeName digest,
      grp_rangeElementInputTypeName = rangeElementInputTypeName digest,
      grp_domainBaseTypeName = domainBaseTypeName digest\<rparr>"

definition agree_on_checked :: "filter_digest \<Rightarrow> filter_digest \<Rightarrow> bool" where
  "agree_on_checked d1 d2 =
     (isList d1 = isList d2 \<and>
      relatedTypeName d1 = relatedTypeName d2 \<and>
      inputTypeName d1 = inputTypeName d2 \<and>
      rangeElementInputTypeName d1 = rangeElementInputTypeName d2)"

section \<open>The build hook: \<open>escapeLikeWildcards\<close>\<close>

definition escapeLikeWildcards :: "js_value \<Rightarrow> js_error + string" where
  "escapeLikeWildcards input =
     (case input of
        JSString s \<Rightarrow>
          Inr (js_join [backslash, CHR ''_'']
                 (js_split (CHR ''_'')
                    (js_join [backslash, CHR ''%''] (js_split (CHR ''%'') s))))
      | _ \<Rightarrow> Inl (new_Error ''Non-string input was provided to escapeLikeWildcards''))"

text \<open>
  What the replacement is meant to be, character by character: every \<open>%\<close> becomes
  \<open>\%\<close>, every \<open>_\<close> becomes \<open>\_\<close>, every other code unit stays.
\<close>

definition escape_char_spec :: "char \<Rightarrow> string" where
  "escape_char_spec c =
     (if c = CHR ''%'' then [backslash, CHR ''%'']
      else if c = CHR ''_'' then [backslash, CHR ''_'']
      else [c])"

definition escape_spec :: "string \<Rightarrow> string" where
  "escape_spec s = concat (map escape_char_spec s)"

definition is_string :: "js_value \<Rightarrow> bool" where
  "is_string v = (case v of JSString _ \<Rightarrow> True | _ \<Rightarrow> False)"

section \<open>Request time: argument values and the predicate target\<close>

text \<open>
  Modelled from the spec: the argument-value abstraction of the host is not in this
  repository; it ``exposes "is structurally empty", "is literal X" and "apply to
  target"''. A step stands for the value given for the argument. \<open>evalIsEmpty()\<close>
  tells whether that value is an object with no field, \<open>evalIs(v)\<close> whether it is the
  literal \<open>v\<close>. Not every kind of step has the member \<open>evalIsEmpty\<close>:
  \<open>has_evalIsEmpty\<close> is the test \<open>"evalIsEmpty" in $raw\<close>.
\<close>

datatype input_value =
    NullValue
  | LeafValue string
  | ListValue "input_value list"
  | ObjectValue "(string \<times> input_value) list"

definition structurally_empty :: "input_value \<Rightarrow> bool" where
  "structurally_empty v = (v = ObjectValue [])"

record input_step =
  step_value :: input_value
  has_evalIsEmpty :: bool

definition evalIsEmpty :: "input_step \<Rightarrow> bool" where
  "evalIsEmpty raw = structurally_empty (step_value raw)"

definition evalIs :: "input_step \<Rightarrow> input_value \<Rightarrow> bool" where
  "evalIs raw v = (step_value raw = v)"

text \<open>
  The predicate target: the step \<open>$connection.getSubplan().wherePlan()\<close> gives. Its
  \<open>extensions.pgFilterColumn\<close> is the slot the column is written to; \<open>conditions\<close>
  stands for what the operators attach to it.
\<close>

record colSpec =
  columnName :: string
  column :: pg_column

record where_step =
  pgFilterColumn :: "colSpec option"
  conditions :: "string list"

record pg_select_step =
  wherePlan :: where_step

record connection_step =
  getSubplan :: pg_select_step

text \<open>
  \<open>fieldArgs\<close>: the raw step of the argument, and \<open>fieldArgs.apply\<close>, which hands the
  target to the operator fields of the argument value.
\<close>

record field_args =
  getRaw :: input_step
  fieldArgs_apply :: "where_step \<Rightarrow> where_step"

text \<open>What a call of \<open>applyPlan\<close> can change: the console and the steps of the request.\<close>

record request_state =
  console :: "string list"
  connection :: connection_step

definition console_log :: "string \<Rightarrow> request_state \<Rightarrow> request_state" where
  "console_log line st = st\<lparr>console := console st @ [line]\<rparr>"

section \<open>The column filter fields: \<open>GraphQLInputObjectType_fields\<close>\<close>

text \<open>
  \<open>applyPlan\<close> of the field made for a column. The result is the error thrown, if any,
  and the state the call leaves.
\<close>

definition applyPlan ::
  "build \<Rightarrow> colSpec \<Rightarrow> request_state \<Rightarrow> field_args \<Rightarrow> js_error option \<times> request_state" where
  "applyPlan build colSpec st fieldArgs =
     (let raw = getRaw fieldArgs in
      if \<not> connectionFilterAllowEmptyObjectInput build \<and> has_evalIsEmpty raw
          \<and> evalIsEmpty raw then
        (Some (Object_assign
                 (new_Error ''Empty objects are forbidden in filter argument input.'') []),
         st)
      else
        let st1 = console_log ''Check...'' st;
            st2 = (if \<not> connectionFilterAllowNullInput build then console_log ''CHECK'' st1
                   else st1)
        in
        if \<not> connectionFilterAllowNullInput build \<and> evalIs raw NullValue then
          (Some (Object_assign
                   (new_Error ''Null literals are forbidden in filter argument input.'') []),
           st2)
        else
          let select = getSubplan (connection st2);
              where0 = wherePlan select;
              where1 = where0\<lparr>pgFilterColumn := Some colSpec\<rparr>;
              where2 = fieldArgs_apply fieldArgs where1
          in (None, st2\<lparr>connection := \<lparr>getSubplan = \<lparr>wherePlan = where2\<rparr>\<rparr>\<rparr>))"

text \<open>The two validation errors, under the names the spec gives them.\<close>

definition EmptyFilterObject :: js_error where
  "EmptyFilterObject =
     \<lparr>message = ''Empty objects are forbidden in filter argument input.'', assigned = []\<rparr>"

definition NullFilterLiteral :: js_error where
  "NullFilterLiteral =
     \<lparr>message = ''Null literals are forbidden in filter argument input.'', assigned = []\<rparr>"

text \<open>
  An error is marked for the caller by a property put on the error object; the source
  puts properties on it with \<open>Object.assign\<close>.
\<close>

definition carries_marker :: "js_error \<Rightarrow> bool" where
  "carries_marker e = (assigned e \<noteq> [])"

record filter_field =
  field_description :: string
  field_type :: graphql_type
  field_applyPlan :: "request_state \<Rightarrow> field_args \<Rightarrow> js_error option \<times> request_state"

record input_fields_context =
  scope_pgCodec :: "pg_codec option"
  scope_isPgConnectionFilter :: bool

text \<open>
  \<open>extend\<close> of the host is not in this repository: it is a parameter of the hooks that
  call it. It gives the extended object or throws.
\<close>

type_synonym 'a extend =
  "(string \<times> 'a) list \<Rightarrow> (string \<times> 'a) list \<Rightarrow> string \<Rightarrow> js_error + (string \<times> 'a) list"

text \<open>The loop over the columns of the codec.\<close>

fun column_fields ::
  "filter_field extend \<Rightarrow> dataplan_pg \<Rightarrow> build \<Rightarrow> pg_codec \<Rightarrow> (string \<times> filter_field) list \<Rightarrow>
   (string \<times> pg_column) list \<Rightarrow> js_error + (string \<times> filter_field) list" where
  "column_fields extend' pg build codec fields' [] = Inr fields'"
| "column_fields extend' pg build codec fields' ((columnName', column') # rest) =
     (let behavior = pgGetBehavior build
            [extensions (column_codec column'), column_extensions column'] in
      if \<not> behavior_matches build behavior ''filter'' ''filter'' then
        column_fields extend' pg build codec fields' rest
      else
        let colSpec = \<lparr>columnName = columnName', column = column'\<rparr>;
            fieldName = inflection_column build codec columnName' in
        (case connectionFilterOperatorsDigest pg build (column_codec column') of
           None \<Rightarrow> column_fields extend' pg build codec fields' rest
         | Some digest \<Rightarrow>
             (case getTypeByName build (operatorsTypeName digest) of
                None \<Rightarrow> column_fields extend' pg build codec fields' rest
              | Some OperatorsType \<Rightarrow>
                  (case extend' fields'
                          [(fieldName,
                            \<lparr>field_description =
                               ''Filter by the object'' @ rsquo @ ''s '' @ [backtick]
                                 @ fieldName @ [backtick] @ '' field.'',
                             field_type = OperatorsType,
                             field_applyPlan = applyPlan build colSpec\<rparr>)]
                          ''Adding column-based filtering'' of
                     Inl e \<Rightarrow> Inl e
                   | Inr extended \<Rightarrow> column_fields extend' pg build codec extended rest))))"

definition GraphQLInputObjectType_fields ::
  "filter_field extend \<Rightarrow> dataplan_pg \<Rightarrow> build \<Rightarrow> input_fields_context \<Rightarrow>
   (string \<times> filter_field) list \<Rightarrow> js_error + (string \<times> filter_field) list" where
  "GraphQLInputObjectType_fields extend' pg build context inFields =
     (if \<not> scope_isPgConnectionFilter context then Inr inFields
      else (case scope_pgCodec context of
              None \<Rightarrow> Inr inFields
            | Some codec \<Rightarrow>
                (case columns codec of
                   None \<Rightarrow> Inr inFields
                 | Some cols \<Rightarrow> column_fields extend' pg build codec inFields cols)))"

section \<open>The \<open>filter\<close> argument: \<open>GraphQLObjectType_fields_field_args\<close>\<close>

record pg_source =
  source_codec :: pg_codec
  source_extensions :: behavior
  parameters :: "string list option"

record field_args_context =
  isPgFieldConnection :: bool
  isPgFieldSimpleCollection :: bool
  pgSource :: "pg_source option"
  fieldName :: string
  Self_name :: string

text \<open>The \<open>plan\<close> of the argument: from the connection's subplan, or from the select step.\<close>

datatype arg_plan =
    PlanOfConnection "connection_step \<Rightarrow> where_step"
  | PlanOfSelect "pg_select_step \<Rightarrow> where_step"

record arg_config =
  arg_description :: string
  arg_type :: graphql_type
  arg_plan :: arg_plan

definition quote :: char where
  "quote = CHR 0x27"

text \<open>The end of the hook, once the behavior of the source allows the filter.\<close>

definition add_filter_arg ::
  "arg_config extend \<Rightarrow> build \<Rightarrow> field_args_context \<Rightarrow> pg_source \<Rightarrow>
   (string \<times> arg_config) list \<Rightarrow> js_error + (string \<times> arg_config) list" where
  "add_filter_arg extend' build context source args =
     (let returnCodec = source_codec source in
      case getGraphQLTypeByPgCodec build returnCodec Output of
        None \<Rightarrow> Inr args
      | Some nodeType \<Rightarrow>
          let nodeTypeName = type_name nodeType;
              filterTypeName = inflection_filterType build nodeTypeName in
          (case getTypeByName build filterTypeName of
             None \<Rightarrow> Inr args
           | Some FilterType \<Rightarrow>
               extend' args
                 [(''filter'',
                   \<lparr>arg_description =
                      ''A filter to be used in determining which values should be returned by the collection.'',
                    arg_type = FilterType,
                    arg_plan =
                      (if isPgFieldConnection context
                       then PlanOfConnection (\<lambda>c. wherePlan (getSubplan c))
                       else PlanOfSelect (\<lambda>pgSelect. wherePlan pgSelect))\<rparr>)]
                 (''Adding connection filter arg to field '' @ [quote] @ fieldName context
                    @ [quote] @ '' of '' @ [quote] @ Self_name context @ [quote])))"

definition defaultBehavior :: "build \<Rightarrow> pg_source \<Rightarrow> string" where
  "defaultBehavior build source =
     (if parameters source \<noteq> None \<and> \<not> connectionFilterSetofFunctions build
      then ''-filter'' else ''filter'')"

definition GraphQLObjectType_fields_field_args ::
  "arg_config extend \<Rightarrow> build \<Rightarrow> field_args_context \<Rightarrow>
   (string \<times> arg_config) list \<Rightarrow> js_error + (string \<times> arg_config) list" where
  "GraphQLObjectType_fields_field_args extend' build context args =
     (let shouldAddFilter = isPgFieldConnection context \<or> isPgFieldSimpleCollection context in
      if \<not> shouldAddFilter then Inr args
      else (case pgSource context of
              None \<Rightarrow> Inr args
            | Some source \<Rightarrow>
                let behavior = pgGetBehavior build
                      [extensions (source_codec source), source_extensions source] in
                if \<not> behavior_matches build behavior ''filter'' (defaultBehavior build source)
                then Inr args
                else add_filter_arg extend' build context source args))"

section \<open>A sample catalogue\<close>

text \<open>
  Modelled from the spec: \<open>getInnerCodec\<close> of \<open>@dataplan/pg\<close> is not in this
  repository; it unwraps the domain, array and range layers down to the innermost
  codec.
\<close>

fun getInnerCodec_model :: "pg_codec \<Rightarrow> pg_codec" where
  "getInnerCodec_model (PgCodec n cols anon poly arr rng dmn ext) =
     (case dmn of
        Some d \<Rightarrow> getInnerCodec_model d
      | None \<Rightarrow>
          (case arr of
             Some a \<Rightarrow> getInnerCodec_model a
           | None \<Rightarrow>
               (case rng of
                  Some r \<Rightarrow> getInnerCodec_model r
                | None \<Rightarrow> PgCodec n cols anon poly arr rng dmn ext)))"

text \<open>
  Modelled from the spec: the capability resolver
  \<open>matches(declaredCapabilities, capabilityName, defaultPolicy)\<close> of the host is not in
  this repository. A spec is a capability name with an optional sign, \<open>-\<close> for a
  negative one; the default policy is read first, and the last spec that names the
  capability decides. With no such spec the capability is not granted.
\<close>

definition spec_positive :: "string \<Rightarrow> bool" where
  "spec_positive s = (case s of [] \<Rightarrow> True | c # cs \<Rightarrow> c \<noteq> CHR ''-'')"

definition spec_scope :: "string \<Rightarrow> string" where
  "spec_scope s =
     (case s of
        [] \<Rightarrow> []
      | c # cs \<Rightarrow> if c = CHR ''-'' \<or> c = CHR ''+'' then cs else c # cs)"

definition behavior_matches_model :: "behavior \<Rightarrow> string \<Rightarrow> string \<Rightarrow> bool" where
  "behavior_matches_model specs capability defaultPolicy =
     (case filter (\<lambda>s. spec_scope s = capability) (rev (defaultPolicy # specs)) of
        [] \<Rightarrow> False
      | s # rest \<Rightarrow> spec_positive s)"

text \<open>
  Modelled from the spec: \<open>pgGetBehavior\<close> of the host is not in this repository; it
  collects the behavior specs of the extensions it is given, in their order.
\<close>

definition pgGetBehavior_model :: "behavior list \<Rightarrow> behavior" where
  "pgGetBehavior_model exts = concat exts"

text \<open>Sample codecs: base types, a range, an array of that range, a domain, an enum.\<close>

definition base_codec :: "string \<Rightarrow> pg_codec" where
  "base_codec n = PgCodec n None False False None None None []"

definition int4 :: pg_codec where
  "int4 = base_codec ''int4''"

definition int4range :: pg_codec where
  "int4range = PgCodec ''int4range'' None False False None (Some int4) None []"

definition altrange :: pg_codec where
  "altrange = PgCodec ''altrange'' None False False None (Some int4) None []"

definition int4range_array :: pg_codec where
  "int4range_array = PgCodec ''_int4range'' None False False (Some int4range) None None []"

definition email :: pg_codec where
  "email = PgCodec ''email'' None False False None None (Some (base_codec ''text'')) []"

definition posint :: pg_codec where
  "posint = PgCodec ''posint'' None False False None None (Some int4) []"

definition mood :: pg_codec where
  "mood = base_codec ''mood''"

definition pg0 :: dataplan_pg where
  "pg0 = \<lparr>TYPES_void = base_codec ''void'',
          TYPES_json = base_codec ''json'',
          TYPES_bpchar = base_codec ''bpchar'',
          TYPES_char = base_codec ''char'',
          TYPES_name = base_codec ''name'',
          TYPES_text = base_codec ''text'',
          TYPES_varchar = base_codec ''varchar'',
          TYPES_citext = base_codec ''citext'',
          getInnerCodec = (\<lambda>c. Some (getInnerCodec_model c)),
          isEnumCodec = (\<lambda>c. name c = ''mood'')\<rparr>"

definition typeName0 :: "pg_codec \<Rightarrow> situation \<Rightarrow> string option" where
  "typeName0 c sit =
     (if name c = ''int4'' then Some ''Int''
      else if name c = ''text'' then Some ''String''
      else if name c = ''int4range'' then
        Some (case sit of Output \<Rightarrow> ''IntRange'' | Input \<Rightarrow> ''IntRangeInput'')
      else if name c = ''altrange'' then
        Some (case sit of Output \<Rightarrow> ''IntRange'' | Input \<Rightarrow> ''AltRangeInput'')
      else if name c = ''email'' then Some ''String''
      else if name c = ''posint'' then Some ''Int''
      else if name c = ''mood'' then Some ''Mood''
      else if name c = ''person'' then Some ''Person''
      else if name c = ''pet'' then Some ''Pet''
      else None)"

definition build0 :: build where
  "build0 = \<lparr>getGraphQLTypeNameByPgCodec = typeName0,
             getTypeMetaByName = (\<lambda>n. Some (TypeMeta n)),
             getGraphQLTypeByPgCodec = (\<lambda>c sit. map_option GraphQLNamedType (typeName0 c sit)),
             getTypeByName = (\<lambda>n. Some (GraphQLNamedType n)),
             inflection_filterType = (\<lambda>n. n @ ''Filter''),
             inflection_filterFieldType = (\<lambda>n. n @ ''Filter''),
             inflection_filterFieldListType = (\<lambda>n. n @ ''ListFilter''),
             inflection_column = (\<lambda>c n. n),
             pgGetBehavior = pgGetBehavior_model,
             behavior_matches = behavior_matches_model,
             allPgCodecs = [int4, base_codec ''text'', int4range, int4range_array, email, mood],
             connectionFilterAllowedFieldTypes = None,
             connectionFilterArrays = True,
             connectionFilterSetofFunctions = False,
             connectionFilterAllowNullInput = False,
             connectionFilterAllowEmptyObjectInput = False\<rparr>"

text \<open>
  A sample \<open>extend\<close>: the new entries are added at the end; a key that is already there
  makes it throw.
\<close>

definition extend_model :: "'a extend" where
  "extend_model base extra hint =
     (if list_ex (\<lambda>k. k \<in> set (map fst base)) (map fst extra)
      then Inl (new_Error (''Overwriting key is not allowed: '' @ hint))
      else Inr (base @ extra))"

text \<open>Two composite codecs with the same column \<open>name\<close>, and sources over them.\<close>

definition name_column :: pg_column where
  "name_column = PgColumn (base_codec ''text'') []"

definition person :: pg_codec where
  "person = PgCodec ''person'' (Some [(''name'', name_column)]) False False None None None []"

definition pet :: pg_codec where
  "pet = PgCodec ''pet'' (Some [(''name'', name_column)]) False False None None None []"

definition people :: pg_source where
  "people = \<lparr>source_codec = person, source_extensions = [], parameters = None\<rparr>"

definition search_people :: pg_source where
  "search_people =
     \<lparr>source_codec = person, source_extensions = [], parameters = Some [''term'']\<rparr>"

definition listing :: "pg_source \<Rightarrow> field_args_context" where
  "listing source =
     \<lparr>isPgFieldConnection = True, isPgFieldSimpleCollection = False,
      pgSource = Some source, fieldName = ''allPeople'', Self_name = ''Query''\<rparr>"

text \<open>
  A request: a target with nothing on it, and argument values whose \<open>apply\<close> attaches
  a condition on the column it finds in the slot.
\<close>

definition st0 :: request_state where
  "st0 = \<lparr>console = [],
          connection = \<lparr>getSubplan = \<lparr>wherePlan = \<lparr>pgFilterColumn = None, conditions = []\<rparr>\<rparr>\<rparr>\<rparr>"

definition attach_equalTo :: "where_step \<Rightarrow> where_step" where
  "attach_equalTo w =
     w\<lparr>conditions := conditions w @
         [(case pgFilterColumn w of
             None \<Rightarrow> ''?''
           | Some c \<Rightarrow> columnName c) @ '' = Ada'']\<rparr>"

definition args_of :: "input_value \<Rightarrow> bool \<Rightarrow> field_args" where
  "args_of v member =
     \<lparr>getRaw = \<lparr>step_value = v, has_evalIsEmpty = member\<rparr>,
      fieldArgs_apply = attach_equalTo\<rparr>"

definition equalTo_Ada :: input_value where
  "equalTo_Ada = ObjectValue [(''equalTo'', LeafValue ''Ada'')]"

definition name_colSpec :: colSpec where
  "name_colSpec = \<lparr>columnName = ''name'', column = name_column\<rparr>"

section \<open>Properties of \<open>escapeLikeWildcards\<close>\<close>

lemma js_split_not_Nil: "js_split sep s \<noteq> []"
  by (induction s) (auto split: list.splits)

lemma js_join_Cons_Nil: "ps \<noteq> [] \<Longrightarrow> js_join sep ([] # ps) = sep @ js_join sep ps"
  by (cases ps) auto

lemma js_join_Cons_char:
  "js_join sep ((c # p) # ps) = c # js_join sep (p # ps)"
  by (cases ps) auto

lemma js_join_js_split:
  "js_join r (js_split sep s) = concat (map (\<lambda>c. if c = sep then r else [c]) s)"
proof (induction s)
  case Nil
  show ?case by simp
next
  case (Cons c cs)
  show ?case
  proof (cases "c = sep")
    case True
    with Cons show ?thesis
      by (simp add: js_join_Cons_Nil js_split_not_Nil)
  next
    case False
    obtain p ps where ps: "js_split sep cs = p # ps"
      using js_split_not_Nil [of sep cs] by (cases "js_split sep cs") auto
    with False Cons show ?thesis
      by (simp add: js_join_Cons_char)
  qed
qed

lemma escape_second_pass:
  "concat (map (\<lambda>c. if c = CHR ''_'' then [backslash, CHR ''_''] else [c])
     (concat (map (\<lambda>c. if c = CHR ''%'' then [backslash, CHR ''%''] else [c]) s)))
   = escape_spec s"
  by (induction s) (auto simp: escape_spec_def escape_char_spec_def backslash_def)

text \<open>
  C8. For a string input \<open>escapeLikeWildcards\<close> returns the input with every \<open>%\<close>
  replaced by \<open>\%\<close> and every \<open>_\<close> replaced by \<open>\_\<close>; for an input that is not a
  string it throws an \<open>Error\<close> and returns nothing.
\<close>

theorem escapeLikeWildcards_correct:
  "escapeLikeWildcards (JSString s) = Inr (escape_spec s) \<and>
   (\<not> is_string v \<longrightarrow>
      escapeLikeWildcards v =
        Inl (new_Error ''Non-string input was provided to escapeLikeWildcards''))"
  by (cases v) (simp_all add: escapeLikeWildcards_def is_string_def js_join_js_split
      escape_second_pass)

theorem escapeLikeWildcards_correct_witness:
  "escapeLikeWildcards (JSString ''50%_a'') =
     Inr [CHR ''5'', CHR ''0'', backslash, CHR ''%'', backslash, CHR ''_'', CHR ''a''] \<and>
   \<not> is_string (JSNumber 7) \<and>
   escapeLikeWildcards (JSNumber 7) =
     Inl (new_Error ''Non-string input was provided to escapeLikeWildcards'')"
  using escapeLikeWildcards_correct [of "''50%_a''" "JSNumber 7"]
  by (simp add: escape_spec_def escape_char_spec_def is_string_def)

section \<open>Properties of the classifier\<close>

lemma isSuitableForFiltering_no_array:
  "isSuitableForFiltering pg codec \<Longrightarrow> arrayOfCodec codec = None"
  by (cases codec) simp

lemma digest_array_None:
  "arrayOfCodec codec \<noteq> None \<Longrightarrow> connectionFilterOperatorsDigest pg build codec = None"
  using isSuitableForFiltering_no_array [of pg codec]
  by (auto simp: connectionFilterOperatorsDigest_def)

lemma category_not_Array:
  "arrayOfCodec codec = None \<Longrightarrow> pgConnectionFilterOperatorsCategory pg codec \<noteq> Array"
  by (simp add: pgConnectionFilterOperatorsCategory_def)

text \<open>
  The option \<open>connectionFilterArrays\<close> is read by the classifier and changes nothing:
  the only codecs it gates are those \<open>isSuitableForFiltering\<close> has already refused.
\<close>

lemma connectionFilterArrays_unread:
  "connectionFilterOperatorsDigest pg (build\<lparr>connectionFilterArrays := b\<rparr>) codec =
   connectionFilterOperatorsDigest pg build codec"
proof (cases "arrayOfCodec codec")
  case None
  then show ?thesis
    by (simp add: connectionFilterOperatorsDigest_def category_not_Array Let_def
        cong: option.case_cong if_cong)
next
  case (Some a)
  then show ?thesis by (simp add: digest_array_None)
qed

text \<open>
  C1. An array of a range is to be classified in the category Array: the classifier
  has a branch for it in the category expression, takes the item codec of an array for
  the names, gates arrays by \<open>connectionFilterArrays\<close> and names list types. The code
  does not get there: \<open>isSuitableForFiltering\<close> asks for \<open>arrayOfCodec\<close> to be absent,
  so the classifier returns no digest for the array of \<open>int4range\<close>, although arrays
  are enabled and every name resolves; the range itself is classified as Range.
\<close>

theorem array_of_range_not_classified:
  "arrayOfCodec int4range_array = Some int4range \<and>
   rangeOfCodec int4range = Some int4 \<and>
   connectionFilterArrays build0 \<and>
   classifiedAs pg0 build0 int4range Range \<and>
   connectionFilterOperatorsDigest pg0 build0 int4range_array = None \<and>
   \<not> classifiedAs pg0 build0 int4range_array Array"
  by (simp add: classifiedAs_def connectionFilterOperatorsDigest_def
      pgConnectionFilterOperatorsCategory_def actualStringCodecs_def
      int4range_array_def int4range_def int4_def base_codec_def pg0_def build0_def
      typeName0_def)

theorem array_of_range_not_classified_witness:
  "connectionFilterOperatorsDigest pg0 build0 int4range \<noteq> None \<and>
   connectionFilterOperatorsDigest pg0 build0 int4range_array = None \<and>
   connectionFilterOperatorsDigest pg0 (build0\<lparr>connectionFilterArrays := False\<rparr>)
     int4range_array = None"
  using array_of_range_not_classified
  by (simp add: classifiedAs_def connectionFilterArrays_unread)

section \<open>Properties of the registry\<close>

lemma check_keys_Some:
  "check_keys keys d g c = Some e \<Longrightarrow>
   \<exists>key \<in> set keys. digest_member d key \<noteq> group_member g key \<and>
     e = new_Error (mismatch_message key (pgCodecs g) (group_member g key) c
           (digest_member d key))"
  by (induction keys) (auto split: if_splits)

lemma check_keys_None_iff:
  "check_keys checkedKeys d g c = None \<longleftrightarrow>
     (isList d = grp_isList g \<and> relatedTypeName d = grp_relatedTypeName g \<and>
      inputTypeName d = grp_inputTypeName g \<and>
      rangeElementInputTypeName d = grp_rangeElementInputTypeName g)"
  by (auto simp: checkedKeys_def digest_member_def group_member_def split: option.splits)

lemma check_keys_group_of:
  "check_keys checkedKeys d2 (group_of d1 ms) c = None \<longleftrightarrow> agree_on_checked d1 d2"
  by (auto simp: check_keys_None_iff group_of_def agree_on_checked_def)

lemma register_codec_map_of:
  assumes "register_codec pg build reg c = Inr reg'"
  shows "map_of reg' k =
     (if digest_names pg build k c then
        (case map_of reg k of
           None \<Rightarrow> Some (group_of (the (connectionFilterOperatorsDigest pg build c)) [c])
         | Some g \<Rightarrow> Some (g\<lparr>pgCodecs := pgCodecs g @ [c]\<rparr>))
      else map_of reg k)"
  using assms
  by (auto simp: register_codec_def digest_names_def group_of_def update_conv'
      split: option.splits)

lemma register_codecs_map_of:
  "register_codecs pg build reg cs = Inr reg' \<Longrightarrow>
   map_of reg' k =
     (case map_of reg k of
        Some g \<Rightarrow> Some (g\<lparr>pgCodecs := pgCodecs g @ filter (digest_names pg build k) cs\<rparr>)
      | None \<Rightarrow>
          (case find (digest_names pg build k) cs of
             None \<Rightarrow> None
           | Some c \<Rightarrow>
               Some (group_of (the (connectionFilterOperatorsDigest pg build c))
                       (filter (digest_names pg build k) cs))))"
proof (induction cs arbitrary: reg)
  case Nil
  then show ?case by (auto split: option.splits)
next
  case (Cons c cs)
  from Cons.prems obtain reg1 where
    r1: "register_codec pg build reg c = Inr reg1" and
    r2: "register_codecs pg build reg1 cs = Inr reg'"
    by (auto split: sum.splits)
  show ?case
    unfolding Cons.IH [OF r2] register_codec_map_of [OF r1]
    by (auto simp: group_of_def split: option.splits)
qed


lemma digest_allPgCodecs_update [simp]:
  "connectionFilterOperatorsDigest pg (build\<lparr>allPgCodecs := cs\<rparr>) c =
   connectionFilterOperatorsDigest pg build c"
  by (simp add: connectionFilterOperatorsDigest_def Let_def cong: option.case_cong if_cong)

lemma digest_names_allPgCodecs_update [simp]:
  "digest_names pg (build\<lparr>allPgCodecs := cs\<rparr>) k c = digest_names pg build k c"
  by (simp add: digest_names_def)

lemma register_codec_allPgCodecs_update [simp]:
  "register_codec pg (build\<lparr>allPgCodecs := cs\<rparr>) reg c = register_codec pg build reg c"
  by (simp add: register_codec_def)

lemma register_codecs_allPgCodecs_update [simp]:
  "register_codecs pg (build\<lparr>allPgCodecs := cs\<rparr>) reg xs = register_codecs pg build reg xs"
  by (induction xs arbitrary: reg) (auto split: sum.splits)

lemma register_codec_distinct:
  "register_codec pg build reg c = Inr reg' \<Longrightarrow> distinct (map fst reg) \<Longrightarrow>
   distinct (map fst reg')"
  by (auto simp: register_codec_def distinct_update split: option.splits)

lemma register_codecs_distinct:
  "register_codecs pg build reg cs = Inr reg' \<Longrightarrow> distinct (map fst reg) \<Longrightarrow>
   distinct (map fst reg')"
  by (induction cs arbitrary: reg) (auto split: sum.splits dest: register_codec_distinct)

lemma register_codec_agrees:
  assumes "register_codec pg build reg c = Inr reg'"
    and "connectionFilterOperatorsDigest pg build c = Some d"
  shows "\<exists>g. map_of reg' (operatorsTypeName d) = Some g \<and>
           check_keys checkedKeys d g c = None"
  using assms
  by (auto simp: register_codec_def update_conv' check_keys_None_iff split: option.splits)

lemma register_codecs_keeps_attributes:
  assumes "register_codecs pg build reg cs = Inr reg'"
    and "map_of reg k = Some g"
  shows "\<exists>g'. map_of reg' k = Some g' \<and>
           (check_keys checkedKeys d g' c = None) = (check_keys checkedKeys d g c = None)"
  using register_codecs_map_of [OF assms(1), of k] assms(2)
  by (auto simp: check_keys_None_iff)

lemma register_codecs_member_agrees:
  "register_codecs pg build reg cs = Inr reg' \<Longrightarrow> c \<in> set cs \<Longrightarrow>
   connectionFilterOperatorsDigest pg build c = Some d \<Longrightarrow>
   \<exists>g. map_of reg' (operatorsTypeName d) = Some g \<and> check_keys checkedKeys d g c = None"
proof (induction cs arbitrary: reg)
  case Nil
  then show ?case by simp
next
  case (Cons c' cs)
  from Cons.prems(1) obtain reg1 where
    r1: "register_codec pg build reg c' = Inr reg1" and
    r2: "register_codecs pg build reg1 cs = Inr reg'"
    by (auto split: sum.splits)
  show ?case
  proof (cases "c \<in> set cs")
    case True
    then show ?thesis using Cons.IH [OF r2 _ Cons.prems(3)] by simp
  next
    case False
    with Cons.prems(2) have "c = c'" by simp
    with register_codec_agrees [OF r1] Cons.prems(3) obtain g where
      g: "map_of reg1 (operatorsTypeName d) = Some g" "check_keys checkedKeys d g c = None"
      by auto
    from register_codecs_keeps_attributes [OF r2 g(1), of d c] g(2)
    show ?thesis by auto
  qed
qed

lemma disagreeing_members_abort:
  assumes d1: "connectionFilterOperatorsDigest pg build c1 = Some d1"
    and d2: "connectionFilterOperatorsDigest pg build c2 = Some d2"
    and same: "operatorsTypeName d1 = operatorsTypeName d2"
    and dis: "\<not> agree_on_checked d1 d2"
    and mem: "c1 \<in> set cs" "c2 \<in> set cs"
  shows "isl (register_codecs pg build [] cs)"
proof (rule ccontr)
  assume "\<not> isl (register_codecs pg build [] cs)"
  then obtain reg' where r: "register_codecs pg build [] cs = Inr reg'"
    by (cases "register_codecs pg build [] cs") auto
  from register_codecs_member_agrees [OF r mem(1) d1] register_codecs_member_agrees [OF r mem(2) d2] same
  have "agree_on_checked d1 d2"
    by (auto simp: check_keys_None_iff agree_on_checked_def)
  with dis show False by simp
qed

lemma two_codecs_agree:
  assumes d1: "connectionFilterOperatorsDigest pg build c1 = Some d1"
    and d2: "connectionFilterOperatorsDigest pg build c2 = Some d2"
    and same: "operatorsTypeName d1 = operatorsTypeName d2"
    and agree: "agree_on_checked d1 d2"
  shows "register_codecs pg build [] [c1, c2] = Inr [(operatorsTypeName d1, group_of d1 [c1, c2])]"
  using assms check_keys_group_of [of d2 d1 "[c1]" c2]
  by (simp add: register_codec_def group_of_def)

lemma two_codecs_disagree:
  assumes d1: "connectionFilterOperatorsDigest pg build c1 = Some d1"
    and d2: "connectionFilterOperatorsDigest pg build c2 = Some d2"
    and same: "operatorsTypeName d1 = operatorsTypeName d2"
    and dis: "\<not> agree_on_checked d1 d2"
  shows "\<exists>key \<in> set checkedKeys. digest_member d1 key \<noteq> digest_member d2 key \<and>
           register_codecs pg build [] [c1, c2] =
             Inl (new_Error (key @ '' mismatch: existing codecs ('' @ name c1
               @ '') had '' @ key @ '' = '' @ template_text (digest_member d1 key)
               @ '', but '' @ name c2 @ '' instead has '' @ key @ '' = ''
               @ template_text (digest_member d2 key)))"
proof -
  from dis check_keys_group_of [of d2 d1 "[c1]" c2]
  obtain e where e: "check_keys checkedKeys d2 (group_of d1 [c1]) c2 = Some e"
    by (cases "check_keys checkedKeys d2 (group_of d1 [c1]) c2") auto
  from check_keys_Some [OF e] obtain key where
    key: "key \<in> set checkedKeys" "digest_member d2 key \<noteq> group_member (group_of d1 [c1]) key"
      "e = new_Error (mismatch_message key (pgCodecs (group_of d1 [c1]))
             (group_member (group_of d1 [c1]) key) c2 (digest_member d2 key))"
    by auto
  from key(1) have gm: "group_member (group_of d1 [c1]) key = digest_member d1 key"
    by (auto simp: checkedKeys_def group_member_def digest_member_def group_of_def)
  have reg: "register_codecs pg build [] [c1, c2] = Inl e"
    using d1 d2 same e by (simp add: register_codec_def group_of_def)
  show ?thesis
    using key gm reg by (intro bexI [of _ key]) (auto simp: mismatch_message_def group_of_def)
qed


lemma digest_int4:
  "connectionFilterOperatorsDigest pg0 build0 int4 =
     Some \<lparr>isList = False, operatorsTypeName = ''IntFilter'', relatedTypeName = ''Int'',
           inputTypeName = ''Int'', rangeElementInputTypeName = None,
           domainBaseTypeName = None\<rparr>"
  by (simp add: connectionFilterOperatorsDigest_def pgConnectionFilterOperatorsCategory_def
      Let_def actualStringCodecs_def int4_def base_codec_def pg0_def build0_def typeName0_def)

lemma digest_posint:
  "connectionFilterOperatorsDigest pg0 build0 posint =
     Some \<lparr>isList = False, operatorsTypeName = ''IntFilter'', relatedTypeName = ''Int'',
           inputTypeName = ''Int'', rangeElementInputTypeName = None,
           domainBaseTypeName = Some ''Int''\<rparr>"
  by (simp add: connectionFilterOperatorsDigest_def pgConnectionFilterOperatorsCategory_def
      Let_def actualStringCodecs_def posint_def int4_def base_codec_def pg0_def build0_def
      typeName0_def)

lemma digest_int4range:
  "connectionFilterOperatorsDigest pg0 build0 int4range =
     Some \<lparr>isList = False, operatorsTypeName = ''IntRangeFilter'',
           relatedTypeName = ''IntRange'', inputTypeName = ''IntRangeInput'',
           rangeElementInputTypeName = Some ''Int'', domainBaseTypeName = None\<rparr>"
  by (simp add: connectionFilterOperatorsDigest_def pgConnectionFilterOperatorsCategory_def
      Let_def actualStringCodecs_def int4range_def int4_def base_codec_def pg0_def build0_def
      typeName0_def)

lemma digest_altrange:
  "connectionFilterOperatorsDigest pg0 build0 altrange =
     Some \<lparr>isList = False, operatorsTypeName = ''IntRangeFilter'',
           relatedTypeName = ''IntRange'', inputTypeName = ''AltRangeInput'',
           rangeElementInputTypeName = Some ''Int'', domainBaseTypeName = None\<rparr>"
  by (simp add: connectionFilterOperatorsDigest_def pgConnectionFilterOperatorsCategory_def
      Let_def actualStringCodecs_def altrange_def int4_def base_codec_def pg0_def build0_def
      typeName0_def)

lemma name_int4range: "name int4range = ''int4range''"
  by (simp add: int4range_def)

lemma name_altrange: "name altrange = ''altrange''"
  by (simp add: altrange_def)

text \<open>
  C2. Two codecs whose digests have the same \<open>operatorsTypeName\<close>. If the digests
  differ on one of the four checked attributes (\<open>isList\<close>, \<open>relatedTypeName\<close>,
  \<open>inputTypeName\<close>, \<open>rangeElementInputTypeName\<close>), the registry throws: on the
  catalogue of the two, the error's message names the attribute, the member already
  there, its value, the new codec and its value; on every catalogue that holds both,
  the loop ends in an error and \<open>init\<close> throws. If the digests agree on the four,
  both codecs are members of one group, whatever their \<open>domainBaseTypeName\<close>.
\<close>

theorem registry_consistency:
  assumes d1: "connectionFilterOperatorsDigest pg build c1 = Some d1"
    and d2: "connectionFilterOperatorsDigest pg build c2 = Some d2"
    and same: "operatorsTypeName d1 = operatorsTypeName d2"
  shows
    "(\<not> agree_on_checked d1 d2 \<longrightarrow>
        (\<exists>key \<in> set checkedKeys. digest_member d1 key \<noteq> digest_member d2 key \<and>
           register_codecs pg build [] [c1, c2] =
             Inl (new_Error (key @ '' mismatch: existing codecs ('' @ name c1
               @ '') had '' @ key @ '' = '' @ template_text (digest_member d1 key)
               @ '', but '' @ name c2 @ '' instead has '' @ key @ '' = ''
               @ template_text (digest_member d2 key)))) \<and>
        (\<forall>cs. c1 \<in> set cs \<and> c2 \<in> set cs \<longrightarrow> isl (register_codecs pg build [] cs)) \<and>
        (c1 \<in> set (allPgCodecs build) \<and> c2 \<in> set (allPgCodecs build) \<longrightarrow>
           fst (init pg build) \<noteq> None)) \<and>
     (agree_on_checked d1 d2 \<longrightarrow>
        register_codecs pg build [] [c1, c2] =
          Inr [(operatorsTypeName d1, group_of d1 [c1, c2])])"
proof (intro conjI impI allI)
  assume dis: "\<not> agree_on_checked d1 d2"
  show "\<exists>key \<in> set checkedKeys. digest_member d1 key \<noteq> digest_member d2 key \<and>
           register_codecs pg build [] [c1, c2] =
             Inl (new_Error (key @ '' mismatch: existing codecs ('' @ name c1
               @ '') had '' @ key @ '' = '' @ template_text (digest_member d1 key)
               @ '', but '' @ name c2 @ '' instead has '' @ key @ '' = ''
               @ template_text (digest_member d2 key)))"
    by (rule two_codecs_disagree [OF d1 d2 same dis])
next
  fix cs
  assume dis: "\<not> agree_on_checked d1 d2" and mem: "c1 \<in> set cs \<and> c2 \<in> set cs"
  then show "isl (register_codecs pg build [] cs)"
    using disagreeing_members_abort [OF d1 d2 same dis] by blast
next
  assume dis: "\<not> agree_on_checked d1 d2"
    and mem: "c1 \<in> set (allPgCodecs build) \<and> c2 \<in> set (allPgCodecs build)"
  then have "isl (codecsByFilterTypeName pg build)"
    unfolding codecsByFilterTypeName_def
    using disagreeing_members_abort [OF d1 d2 same dis] by blast
  then show "fst (init pg build) \<noteq> None"
    by (auto simp: init_def Let_def split: sum.splits)
next
  assume "agree_on_checked d1 d2"
  then show "register_codecs pg build [] [c1, c2] =
          Inr [(operatorsTypeName d1, group_of d1 [c1, c2])]"
    by (rule two_codecs_agree [OF d1 d2 same])
qed

theorem registry_consistency_witness:
  "register_codecs pg0 build0 [] [int4range, altrange] =
     Inl (new_Error (''inputTypeName mismatch: existing codecs (int4range) had ''
       @ ''inputTypeName = IntRangeInput, but altrange instead has ''
       @ ''inputTypeName = AltRangeInput'')) \<and>
   isl (register_codecs pg0 build0 [] [int4range, int4, altrange]) \<and>
   fst (init pg0 (build0\<lparr>allPgCodecs := [int4range, int4, altrange]\<rparr>)) \<noteq> None \<and>
   register_codecs pg0 build0 [] [int4, posint] =
     Inr [(''IntFilter'',
           \<lparr>grp_isList = False, grp_relatedTypeName = ''Int'',
            pgCodecs = [int4, posint], grp_inputTypeName = ''Int'',
            grp_rangeElementInputTypeName = None, grp_domainBaseTypeName = None\<rparr>)]"
proof -
  note ranges = registry_consistency [OF digest_int4range digest_altrange]
  note ranges' = registry_consistency
    [of pg0 "build0\<lparr>allPgCodecs := [int4range, int4, altrange]\<rparr>" int4range _ altrange,
      unfolded digest_allPgCodecs_update, OF digest_int4range digest_altrange]
  note ints = registry_consistency [OF digest_int4 digest_posint]
  have message: "register_codecs pg0 build0 [] [int4range, altrange] =
     Inl (new_Error (''inputTypeName mismatch: existing codecs (int4range) had ''
       @ ''inputTypeName = IntRangeInput, but altrange instead has ''
       @ ''inputTypeName = AltRangeInput''))"
    using ranges
    by (simp add: agree_on_checked_def checkedKeys_def digest_member_def template_text_def
        name_int4range name_altrange)
  have "\<forall>cs. int4range \<in> set cs \<and> altrange \<in> set cs \<longrightarrow>
          isl (register_codecs pg0 build0 [] cs)"
    using ranges by (simp add: agree_on_checked_def)
  from this [rule_format, of "[int4range, int4, altrange]"]
  have every: "isl (register_codecs pg0 build0 [] [int4range, int4, altrange])"
    by simp
  have aborts: "fst (init pg0 (build0\<lparr>allPgCodecs := [int4range, int4, altrange]\<rparr>)) \<noteq> None"
    using ranges' by (simp add: agree_on_checked_def)
  have one_group: "register_codecs pg0 build0 [] [int4, posint] =
     Inr [(''IntFilter'',
           \<lparr>grp_isList = False, grp_relatedTypeName = ''Int'',
            pgCodecs = [int4, posint], grp_inputTypeName = ''Int'',
            grp_rangeElementInputTypeName = None, grp_domainBaseTypeName = None\<rparr>)]"
    using ints by (simp add: agree_on_checked_def group_of_def)
  from message every aborts one_group show ?thesis by blast
qed

lemma registry_entry_first_digest:
  assumes reg: "register_codecs pg build [] cs = Inr groups"
    and mem: "(k, g) \<in> set groups"
  shows "\<exists>c d. find (digest_names pg build k) cs = Some c \<and>
           connectionFilterOperatorsDigest pg build c = Some d \<and> operatorsTypeName d = k \<and>
           g = group_of d (filter (digest_names pg build k) cs)"
proof -
  have "distinct (map fst groups)"
    using register_codecs_distinct [OF reg] by simp
  with mem have "map_of groups k = Some g" by simp
  with register_codecs_map_of [OF reg, of k]
  obtain c where c: "find (digest_names pg build k) cs = Some c"
    and g: "g = group_of (the (connectionFilterOperatorsDigest pg build c))
                  (filter (digest_names pg build k) cs)"
    by (auto split: option.splits)
  from c have "digest_names pg build k c"
    by (auto simp: find_Some_iff)
  then obtain d where "connectionFilterOperatorsDigest pg build c = Some d"
    "operatorsTypeName d = k"
    by (auto simp: digest_names_def split: option.splits)
  with c g show ?thesis by auto
qed

lemma codecsByFilterTypeName_catalogue:
  "codecsByFilterTypeName pg (build\<lparr>allPgCodecs := cs\<rparr>) = register_codecs pg build [] cs"
  by (simp add: codecsByFilterTypeName_def del: register_codecs.simps)

text \<open>
  C10. Every group the registry holds is the one founded by the digest of the first
  codec of the catalogue that the classifier sends to the group's name: its checked
  attributes and its \<open>domainBaseTypeName\<close> are that digest's, its members are all
  the codecs sent to that name, and the operator input type is registered with that
  \<open>domainBaseTypeName\<close>. Later members do not change it: of two codecs that agree on
  the checked attributes, the one that comes first in the catalogue gives the group its
  \<open>domainBaseTypeName\<close>, so the tag follows the order of the catalogue.
\<close>

theorem group_keeps_first_digest:
  "(codecsByFilterTypeName pg build = Inr groups \<and> (k, g) \<in> set groups \<longrightarrow>
      (\<exists>c d. find (digest_names pg build k) (allPgCodecs build) = Some c \<and>
         connectionFilterOperatorsDigest pg build c = Some d \<and>
         g = group_of d (filter (digest_names pg build k) (allPgCodecs build)) \<and>
         grp_domainBaseTypeName g = domainBaseTypeName d \<and>
         register_operator_type (k, g) \<in> set (snd (init pg build)) \<and>
         reg_scope (register_operator_type (k, g)) =
           OperatorsScope (filter (digest_names pg build k) (allPgCodecs build))
             (inputTypeName d) (rangeElementInputTypeName d) (domainBaseTypeName d))) \<and>
   (connectionFilterOperatorsDigest pg build c1 = Some d1 \<and>
    connectionFilterOperatorsDigest pg build c2 = Some d2 \<and>
    operatorsTypeName d1 = operatorsTypeName d2 \<and> agree_on_checked d1 d2 \<longrightarrow>
      codecsByFilterTypeName pg (build\<lparr>allPgCodecs := [c1, c2]\<rparr>) =
        Inr [(operatorsTypeName d1, group_of d1 [c1, c2])] \<and>
      codecsByFilterTypeName pg (build\<lparr>allPgCodecs := [c2, c1]\<rparr>) =
        Inr [(operatorsTypeName d1, group_of d2 [c2, c1])])"
proof (intro conjI impI)
  assume a: "codecsByFilterTypeName pg build = Inr groups \<and> (k, g) \<in> set groups"
  then have reg: "register_codecs pg build [] (allPgCodecs build) = Inr groups"
    and mem: "(k, g) \<in> set groups"
    by (simp_all add: codecsByFilterTypeName_def)
  from registry_entry_first_digest [OF reg mem] obtain c d where
    c: "find (digest_names pg build k) (allPgCodecs build) = Some c" and
    d: "connectionFilterOperatorsDigest pg build c = Some d" and
    g: "g = group_of d (filter (digest_names pg build k) (allPgCodecs build))"
    by blast
  have "register_operator_type (k, g) \<in> set (snd (init pg build))"
    using a by (simp add: init_def)
  with c d g show "\<exists>c d. find (digest_names pg build k) (allPgCodecs build) = Some c \<and>
         connectionFilterOperatorsDigest pg build c = Some d \<and>
         g = group_of d (filter (digest_names pg build k) (allPgCodecs build)) \<and>
         grp_domainBaseTypeName g = domainBaseTypeName d \<and>
         register_operator_type (k, g) \<in> set (snd (init pg build)) \<and>
         reg_scope (register_operator_type (k, g)) =
           OperatorsScope (filter (digest_names pg build k) (allPgCodecs build))
             (inputTypeName d) (rangeElementInputTypeName d) (domainBaseTypeName d)"
    by (auto simp: group_of_def register_operator_type_def)
next
  assume a: "connectionFilterOperatorsDigest pg build c1 = Some d1 \<and>
    connectionFilterOperatorsDigest pg build c2 = Some d2 \<and>
    operatorsTypeName d1 = operatorsTypeName d2 \<and> agree_on_checked d1 d2"
  then show "codecsByFilterTypeName pg (build\<lparr>allPgCodecs := [c1, c2]\<rparr>) =
        Inr [(operatorsTypeName d1, group_of d1 [c1, c2])]"
    using two_codecs_agree [of pg build c1 d1 c2 d2]
    by (simp add: codecsByFilterTypeName_catalogue del: register_codecs.simps)
next
  assume a: "connectionFilterOperatorsDigest pg build c1 = Some d1 \<and>
    connectionFilterOperatorsDigest pg build c2 = Some d2 \<and>
    operatorsTypeName d1 = operatorsTypeName d2 \<and> agree_on_checked d1 d2"
  then have "agree_on_checked d2 d1"
    by (auto simp: agree_on_checked_def)
  with a show "codecsByFilterTypeName pg (build\<lparr>allPgCodecs := [c2, c1]\<rparr>) =
        Inr [(operatorsTypeName d1, group_of d2 [c2, c1])]"
    using two_codecs_agree [of pg build c2 d2 c1 d1]
    by (simp add: codecsByFilterTypeName_catalogue del: register_codecs.simps)
qed

theorem group_keeps_first_digest_witness:
  "codecsByFilterTypeName pg0 (build0\<lparr>allPgCodecs := [int4, posint]\<rparr>) =
     Inr [(''IntFilter'',
           \<lparr>grp_isList = False, grp_relatedTypeName = ''Int'',
            pgCodecs = [int4, posint], grp_inputTypeName = ''Int'',
            grp_rangeElementInputTypeName = None, grp_domainBaseTypeName = None\<rparr>)] \<and>
   codecsByFilterTypeName pg0 (build0\<lparr>allPgCodecs := [posint, int4]\<rparr>) =
     Inr [(''IntFilter'',
           \<lparr>grp_isList = False, grp_relatedTypeName = ''Int'',
            pgCodecs = [posint, int4], grp_inputTypeName = ''Int'',
            grp_rangeElementInputTypeName = None, grp_domainBaseTypeName = Some ''Int''\<rparr>)] \<and>
   find (digest_names pg0 (build0\<lparr>allPgCodecs := [posint, int4]\<rparr>) ''IntFilter'')
     [posint, int4] = Some posint \<and>
   (\<exists>r \<in> set (snd (init pg0 (build0\<lparr>allPgCodecs := [posint, int4]\<rparr>))).
      reg_typeName r = ''IntFilter'' \<and>
      reg_scope r = OperatorsScope [posint, int4] ''Int'' None (Some ''Int''))"
proof -
  let ?b = "build0\<lparr>allPgCodecs := [posint, int4]\<rparr>"
  let ?g = "\<lparr>grp_isList = False, grp_relatedTypeName = ''Int'',
            pgCodecs = [posint, int4], grp_inputTypeName = ''Int'',
            grp_rangeElementInputTypeName = None, grp_domainBaseTypeName = Some ''Int''\<rparr>"
  note swap = group_keeps_first_digest [of pg0 build0 _ _ _ int4 _ posint,
      THEN conjunct2, rule_format]
  have orders:
    "codecsByFilterTypeName pg0 (build0\<lparr>allPgCodecs := [int4, posint]\<rparr>) =
       Inr [(''IntFilter'',
           \<lparr>grp_isList = False, grp_relatedTypeName = ''Int'',
            pgCodecs = [int4, posint], grp_inputTypeName = ''Int'',
            grp_rangeElementInputTypeName = None, grp_domainBaseTypeName = None\<rparr>)]"
    "codecsByFilterTypeName pg0 ?b = Inr [(''IntFilter'', ?g)]"
    using swap [of _ _] digest_int4 digest_posint
    by (simp_all add: agree_on_checked_def group_of_def)
  note first = group_keeps_first_digest [of pg0 ?b "[(''IntFilter'', ?g)]" "''IntFilter''" ?g,
      THEN conjunct1, rule_format]
  from first orders(2) obtain c d where
    c: "find (digest_names pg0 ?b ''IntFilter'') (allPgCodecs ?b) = Some c" and
    d: "connectionFilterOperatorsDigest pg0 ?b c = Some d" and
    r: "register_operator_type (''IntFilter'', ?g) \<in> set (snd (init pg0 ?b))"
       "reg_scope (register_operator_type (''IntFilter'', ?g)) =
          OperatorsScope (filter (digest_names pg0 ?b ''IntFilter'') (allPgCodecs ?b))
            (inputTypeName d) (rangeElementInputTypeName d) (domainBaseTypeName d)"
    by auto
  have names: "digest_names pg0 ?b ''IntFilter'' posint" "digest_names pg0 ?b ''IntFilter'' int4"
    by (simp_all add: digest_names_def digest_posint digest_int4)
  with c have "c = posint" by simp
  with d have "d = \<lparr>isList = False, operatorsTypeName = ''IntFilter'', relatedTypeName = ''Int'',
           inputTypeName = ''Int'', rangeElementInputTypeName = None,
           domainBaseTypeName = Some ''Int''\<rparr>"
    by (simp add: digest_posint)
  with r names have "reg_typeName (register_operator_type (''IntFilter'', ?g)) = ''IntFilter''"
    "reg_scope (register_operator_type (''IntFilter'', ?g)) =
       OperatorsScope [posint, int4] ''Int'' None (Some ''Int'')"
    by (simp_all add: register_operator_type_def)
  with r(1) have "\<exists>r \<in> set (snd (init pg0 ?b)).
      reg_typeName r = ''IntFilter'' \<and>
      reg_scope r = OperatorsScope [posint, int4] ''Int'' None (Some ''Int'')"
    by blast
  with orders names show ?thesis by simp
qed

section \<open>Properties of the column filter fields\<close>

text \<open>
  C3. The raw argument value is a step of the host, which exposes ``is structurally
  empty'' as the member \<open>evalIsEmpty\<close>. On such a step: if \<open>allowEmptyObjectInput\<close> is
  false and the value is structurally empty, \<open>applyPlan\<close> fails with
  \<open>EmptyFilterObject\<close>; if \<open>allowNullInput\<close> is false and the value is the literal
  \<open>null\<close>, it fails with \<open>NullFilterLiteral\<close>; with the respective flag true, the same
  input raises no error. Only the first part needs the member.
\<close>

theorem validation_guards:
  "(\<not> connectionFilterAllowEmptyObjectInput build \<and> has_evalIsEmpty (getRaw fieldArgs)
      \<and> structurally_empty (step_value (getRaw fieldArgs)) \<longrightarrow>
      fst (applyPlan build colSpec st fieldArgs) = Some EmptyFilterObject) \<and>
   (\<not> connectionFilterAllowNullInput build \<and> step_value (getRaw fieldArgs) = NullValue \<longrightarrow>
      fst (applyPlan build colSpec st fieldArgs) = Some NullFilterLiteral) \<and>
   (connectionFilterAllowEmptyObjectInput build
      \<and> structurally_empty (step_value (getRaw fieldArgs)) \<longrightarrow>
      fst (applyPlan build colSpec st fieldArgs) = None) \<and>
   (connectionFilterAllowNullInput build \<and> step_value (getRaw fieldArgs) = NullValue \<longrightarrow>
      fst (applyPlan build colSpec st fieldArgs) = None)"
  by (auto simp: applyPlan_def Let_def evalIsEmpty_def evalIs_def structurally_empty_def
      EmptyFilterObject_def NullFilterLiteral_def new_Error_def Object_assign_def)

theorem validation_guards_witness:
  "fst (applyPlan build0 name_colSpec st0 (args_of (ObjectValue []) True)) =
     Some EmptyFilterObject \<and>
   fst (applyPlan build0 name_colSpec st0 (args_of NullValue True)) = Some NullFilterLiteral \<and>
   fst (applyPlan (build0\<lparr>connectionFilterAllowEmptyObjectInput := True\<rparr>) name_colSpec st0
          (args_of (ObjectValue []) True)) = None \<and>
   fst (applyPlan (build0\<lparr>connectionFilterAllowNullInput := True\<rparr>) name_colSpec st0
          (args_of NullValue True)) = None"
  using validation_guards [of build0 "args_of (ObjectValue []) True" name_colSpec st0]
    validation_guards [of build0 "args_of NullValue True" name_colSpec st0]
    validation_guards [of "build0\<lparr>connectionFilterAllowEmptyObjectInput := True\<rparr>"
      "args_of (ObjectValue []) True" name_colSpec st0]
    validation_guards [of "build0\<lparr>connectionFilterAllowNullInput := True\<rparr>"
      "args_of NullValue True" name_colSpec st0]
  by (simp add: args_of_def structurally_empty_def build0_def)

text \<open>
  C4. The two validation errors as the code throws them: \<open>Object.assign\<close> is given an
  empty object, so the error carries its message and no property beside, hence no
  marker that it may be shown to the caller.
\<close>

theorem validation_errors_unmarked:
  "fst (applyPlan build0 name_colSpec st0 (args_of (ObjectValue []) True)) =
     Some \<lparr>message = ''Empty objects are forbidden in filter argument input.'',
           assigned = []\<rparr> \<and>
   \<not> carries_marker \<lparr>message = ''Empty objects are forbidden in filter argument input.'',
           assigned = []\<rparr> \<and>
   fst (applyPlan build0 name_colSpec st0 (args_of NullValue True)) =
     Some \<lparr>message = ''Null literals are forbidden in filter argument input.'',
           assigned = []\<rparr> \<and>
   \<not> carries_marker \<lparr>message = ''Null literals are forbidden in filter argument input.'',
           assigned = []\<rparr>"
  by (simp add: applyPlan_def args_of_def structurally_empty_def evalIs_def evalIsEmpty_def
      build0_def Let_def new_Error_def Object_assign_def carries_marker_def)

text \<open>
  C5. When \<open>applyPlan\<close> fails, it fails with one of the two validation errors, and the
  steps of the request are as they were: the slot is not written and \<open>fieldArgs.apply\<close>
  has not run, whatever it would do to the target.
\<close>

theorem no_mutation_on_failure:
  "fst (applyPlan build colSpec st fieldArgs) \<noteq> None \<longrightarrow>
     connection (snd (applyPlan build colSpec st fieldArgs)) = connection st \<and>
     (fst (applyPlan build colSpec st fieldArgs) = Some EmptyFilterObject \<or>
      fst (applyPlan build colSpec st fieldArgs) = Some NullFilterLiteral)"
  by (auto simp: applyPlan_def Let_def console_log_def EmptyFilterObject_def
      NullFilterLiteral_def new_Error_def Object_assign_def)

theorem no_mutation_on_failure_witness:
  "fst (applyPlan build0 name_colSpec st0 (args_of NullValue True)) \<noteq> None \<and>
   connection (snd (applyPlan build0 name_colSpec st0 (args_of NullValue True))) =
     connection st0 \<and>
   fieldArgs_apply (args_of NullValue True) (wherePlan (getSubplan (connection st0))) \<noteq>
     wherePlan (getSubplan (connection st0)) \<and>
   fst (applyPlan build0 name_colSpec st0 (args_of (ObjectValue []) True)) \<noteq> None \<and>
   snd (applyPlan build0 name_colSpec st0 (args_of (ObjectValue []) True)) = st0"
  using no_mutation_on_failure [of build0 name_colSpec st0 "args_of NullValue True"]
    no_mutation_on_failure [of build0 name_colSpec st0 "args_of (ObjectValue []) True"]
  by (simp add: applyPlan_def args_of_def structurally_empty_def evalIs_def evalIsEmpty_def
      build0_def Let_def st0_def attach_equalTo_def)

text \<open>
  C9. When the raw step has no member \<open>evalIsEmpty\<close>, \<open>applyPlan\<close> never fails with
  \<open>EmptyFilterObject\<close>, whatever \<open>allowEmptyObjectInput\<close> is; on a structurally empty
  value it raises no error at all.
\<close>

theorem empty_check_skipped_without_member:
  "\<not> has_evalIsEmpty (getRaw fieldArgs) \<longrightarrow>
     fst (applyPlan build colSpec st fieldArgs) \<noteq> Some EmptyFilterObject \<and>
     (structurally_empty (step_value (getRaw fieldArgs)) \<longrightarrow>
        fst (applyPlan build colSpec st fieldArgs) = None)"
  by (auto simp: applyPlan_def Let_def evalIs_def structurally_empty_def
      EmptyFilterObject_def new_Error_def Object_assign_def)

theorem empty_check_skipped_without_member_witness:
  "\<not> has_evalIsEmpty (getRaw (args_of (ObjectValue []) False)) \<and>
   structurally_empty (step_value (getRaw (args_of (ObjectValue []) False))) \<and>
   \<not> connectionFilterAllowEmptyObjectInput build0 \<and>
   applyPlan build0 name_colSpec st0 (args_of (ObjectValue []) False) =
     (None,
      \<lparr>console = [''Check...'', ''CHECK''],
       connection = \<lparr>getSubplan = \<lparr>wherePlan =
         \<lparr>pgFilterColumn = Some name_colSpec, conditions = [''name = Ada'']\<rparr>\<rparr>\<rparr>\<rparr>)"
  using empty_check_skipped_without_member
    [of "args_of (ObjectValue []) False" build0 name_colSpec st0]
  by (simp add: applyPlan_def args_of_def structurally_empty_def evalIs_def evalIsEmpty_def
      build0_def Let_def st0_def attach_equalTo_def console_log_def name_colSpec_def)

lemma digest_text:
  "connectionFilterOperatorsDigest pg0 build0 (base_codec ''text'') =
     Some \<lparr>isList = False, operatorsTypeName = ''StringFilter'', relatedTypeName = ''String'',
           inputTypeName = ''String'', rangeElementInputTypeName = None,
           domainBaseTypeName = None\<rparr>"
  by (simp add: connectionFilterOperatorsDigest_def pgConnectionFilterOperatorsCategory_def
      Let_def actualStringCodecs_def base_codec_def pg0_def build0_def typeName0_def)

lemma name_column_filterable:
  "behavior_matches build0
     (pgGetBehavior build0 [extensions (column_codec name_column), column_extensions name_column])
     ''filter'' ''filter''"
  by (simp add: build0_def name_column_def base_codec_def pgGetBehavior_model_def
      behavior_matches_model_def spec_scope_def spec_positive_def)

lemma build0_lookups:
  "getTypeByName build0 n = Some (GraphQLNamedType n)"
  "inflection_column build0 c n = n"
  "inflection_filterType build0 n = n @ ''Filter''"
  "getGraphQLTypeByPgCodec build0 c sit = map_option GraphQLNamedType (typeName0 c sit)"
  "pgGetBehavior build0 = pgGetBehavior_model"
  "behavior_matches build0 = behavior_matches_model"
  by (simp_all add: build0_def)

lemma name_column_field:
  "column_fields extend_model pg0 build0 codec [] [(''name'', name_column)] =
     Inr [(''name'',
           \<lparr>field_description = ''Filter by the object'' @ rsquo @ ''s '' @ [backtick]
               @ ''name'' @ [backtick] @ '' field.'',
            field_type = GraphQLNamedType ''StringFilter'',
            field_applyPlan = applyPlan build0 name_colSpec\<rparr>)]"
  using name_column_filterable digest_text
  by (simp add: name_column_def name_colSpec_def extend_model_def build0_lookups Let_def)

text \<open>
  C6, as the spec has it: the slot is set to the column identity made of the owning
  type, the column name and the column's codec. The slot is set to \<open>colSpec\<close>, which is
  \<open>{ columnName, column }\<close>: the filter types of \<open>person\<close> and of \<open>pet\<close> get the very
  same field for their column \<open>name\<close>, and what \<open>applyPlan\<close> writes to the slot does not
  tell the owner.
\<close>

theorem slot_has_no_owner:
  "person \<noteq> pet \<and>
   GraphQLInputObjectType_fields extend_model pg0 build0
     \<lparr>scope_pgCodec = Some person, scope_isPgConnectionFilter = True\<rparr> [] =
     Inr [(''name'',
           \<lparr>field_description = ''Filter by the object'' @ rsquo @ ''s '' @ [backtick]
               @ ''name'' @ [backtick] @ '' field.'',
            field_type = GraphQLNamedType ''StringFilter'',
            field_applyPlan = applyPlan build0 name_colSpec\<rparr>)] \<and>
   GraphQLInputObjectType_fields extend_model pg0 build0
     \<lparr>scope_pgCodec = Some pet, scope_isPgConnectionFilter = True\<rparr> [] =
     Inr [(''name'',
           \<lparr>field_description = ''Filter by the object'' @ rsquo @ ''s '' @ [backtick]
               @ ''name'' @ [backtick] @ '' field.'',
            field_type = GraphQLNamedType ''StringFilter'',
            field_applyPlan = applyPlan build0 name_colSpec\<rparr>)] \<and>
   applyPlan build0 name_colSpec st0 (args_of equalTo_Ada True) =
     (None,
      \<lparr>console = [''Check...'', ''CHECK''],
       connection = \<lparr>getSubplan = \<lparr>wherePlan =
         \<lparr>pgFilterColumn = Some \<lparr>columnName = ''name'', column = name_column\<rparr>,
          conditions = [''name = Ada'']\<rparr>\<rparr>\<rparr>\<rparr>)"
proof -
  have owners: "person \<noteq> pet"
    by (simp add: person_def pet_def)
  note field = name_column_field
  have run: "applyPlan build0 name_colSpec st0 (args_of equalTo_Ada True) =
     (None,
      \<lparr>console = [''Check...'', ''CHECK''],
       connection = \<lparr>getSubplan = \<lparr>wherePlan =
         \<lparr>pgFilterColumn = Some \<lparr>columnName = ''name'', column = name_column\<rparr>,
          conditions = [''name = Ada'']\<rparr>\<rparr>\<rparr>\<rparr>)"
    by (simp add: applyPlan_def args_of_def equalTo_Ada_def structurally_empty_def evalIs_def
        evalIsEmpty_def build0_def Let_def st0_def attach_equalTo_def console_log_def
        name_colSpec_def)
  from owners field run show ?thesis
    by (simp add: GraphQLInputObjectType_fields_def person_def pet_def)
qed

text \<open>
  C6, amended: when both validation checks pass, \<open>applyPlan\<close> first writes \<open>colSpec\<close>
  to the slot of the target and then hands that target to \<open>fieldArgs.apply\<close>, so the
  operators find the column in the slot; and the \<open>colSpec\<close> of the field made for a
  column is the column's name and the column (with its codec), without the owning type.
\<close>

theorem column_tagged_before_delegation:
  "(fst (applyPlan build colSpec st fieldArgs) = None \<longrightarrow>
      wherePlan (getSubplan (connection (snd (applyPlan build colSpec st fieldArgs)))) =
        fieldArgs_apply fieldArgs
          ((wherePlan (getSubplan (connection st)))\<lparr>pgFilterColumn := Some colSpec\<rparr>)) \<and>
   (behavior_matches build
      (pgGetBehavior build [extensions (column_codec col), column_extensions col])
      ''filter'' ''filter'' \<and>
    connectionFilterOperatorsDigest pg build (column_codec col) = Some digest \<and>
    getTypeByName build (operatorsTypeName digest) = Some OperatorsType \<longrightarrow>
      column_fields extend' pg build codec fields' ((cn, col) # rest) =
        (case extend' fields'
                [(inflection_column build codec cn,
                  \<lparr>field_description = ''Filter by the object'' @ rsquo @ ''s '' @ [backtick]
                      @ inflection_column build codec cn @ [backtick] @ '' field.'',
                   field_type = OperatorsType,
                   field_applyPlan = applyPlan build \<lparr>columnName = cn, column = col\<rparr>\<rparr>)]
                ''Adding column-based filtering'' of
           Inl e \<Rightarrow> Inl e
         | Inr extended \<Rightarrow> column_fields extend' pg build codec extended rest))"
  by (auto simp: applyPlan_def Let_def console_log_def split: if_splits)

theorem column_tagged_before_delegation_witness:
  "fst (applyPlan build0 name_colSpec st0 (args_of equalTo_Ada True)) = None \<and>
   wherePlan (getSubplan (connection
       (snd (applyPlan build0 name_colSpec st0 (args_of equalTo_Ada True))))) =
     attach_equalTo \<lparr>pgFilterColumn = Some name_colSpec, conditions = []\<rparr> \<and>
   attach_equalTo \<lparr>pgFilterColumn = Some name_colSpec, conditions = []\<rparr> =
     \<lparr>pgFilterColumn = Some name_colSpec, conditions = [''name = Ada'']\<rparr> \<and>
   column_fields extend_model pg0 build0 person [] [(''name'', name_column)] =
     Inr [(''name'',
           \<lparr>field_description = ''Filter by the object'' @ rsquo @ ''s '' @ [backtick]
               @ ''name'' @ [backtick] @ '' field.'',
            field_type = GraphQLNamedType ''StringFilter'',
            field_applyPlan = applyPlan build0 name_colSpec\<rparr>)]"
proof -
  have ok: "fst (applyPlan build0 name_colSpec st0 (args_of equalTo_Ada True)) = None"
    by (simp add: applyPlan_def args_of_def equalTo_Ada_def structurally_empty_def evalIs_def
        evalIsEmpty_def build0_def Let_def)
  note inst = column_tagged_before_delegation
    [of build0 name_colSpec st0 "args_of equalTo_Ada True" name_column pg0 _
      "GraphQLNamedType ''StringFilter''" extend_model person "[]" "''name''" "[]"]
  from inst ok have target:
    "wherePlan (getSubplan (connection
       (snd (applyPlan build0 name_colSpec st0 (args_of equalTo_Ada True))))) =
     attach_equalTo \<lparr>pgFilterColumn = Some name_colSpec, conditions = []\<rparr>"
    by (simp add: args_of_def st0_def)
  have tag: "attach_equalTo \<lparr>pgFilterColumn = Some name_colSpec, conditions = []\<rparr> =
     \<lparr>pgFilterColumn = Some name_colSpec, conditions = [''name = Ada'']\<rparr>"
    by (simp add: attach_equalTo_def name_colSpec_def)
  from inst name_column_filterable digest_text
  have "column_fields extend_model pg0 build0 person [] [(''name'', name_column)] =
     Inr [(''name'',
           \<lparr>field_description = ''Filter by the object'' @ rsquo @ ''s '' @ [backtick]
               @ ''name'' @ [backtick] @ '' field.'',
            field_type = GraphQLNamedType ''StringFilter'',
            field_applyPlan = applyPlan build0 name_colSpec\<rparr>)]"
    by (simp add: name_column_def name_colSpec_def extend_model_def build0_lookups)
  with ok target tag show ?thesis by simp
qed

section \<open>Properties of the \<open>filter\<close> argument\<close>

lemma matches_no_spec:
  assumes "\<forall>s \<in> set specs. spec_scope s \<noteq> cap" and "spec_scope d = cap"
  shows "behavior_matches_model specs cap d = spec_positive d"
proof -
  from assms(1) have "filter (\<lambda>s. spec_scope s = cap) (rev specs) = []"
    by (auto simp: filter_empty_conv)
  with assms(2) show ?thesis
    by (simp add: behavior_matches_model_def)
qed

lemma matches_last_spec:
  assumes "specs = pre @ s # post" and "spec_scope s = cap"
    and "\<forall>t \<in> set post. spec_scope t \<noteq> cap"
  shows "behavior_matches_model specs cap d = spec_positive s"
proof -
  from assms(3) have "filter (\<lambda>s. spec_scope s = cap) (rev post) = []"
    by (auto simp: filter_empty_conv)
  with assms(1,2) show ?thesis
    by (simp add: behavior_matches_model_def)
qed

text \<open>
  C7. A listing field over a source, with the behavior resolver of the host as modelled
  above. A source with \<open>parameters\<close> and no \<open>filter\<close> spec of its own gets no
  \<open>filter\<close> argument, unless \<open>connectionFilterSetofFunctions\<close> is set or its deciding
  spec is \<open>+filter\<close>; a source without \<open>parameters\<close> gets the argument, unless its
  deciding spec is \<open>-filter\<close>. Whenever the resolver refuses, whatever resolver it
  is, the hook returns the arguments it was given and throws nothing.
\<close>

theorem default_filterability:
  assumes resolver: "behavior_matches build = behavior_matches_model"
      "pgGetBehavior build = pgGetBehavior_model"
    and listing: "isPgFieldConnection context \<or> isPgFieldSimpleCollection context"
    and source: "pgSource context = Some source"
    and tags: "tags = extensions (source_codec source) @ source_extensions source"
  shows
    "(parameters source \<noteq> None \<and> \<not> connectionFilterSetofFunctions build \<and>
      (\<forall>s \<in> set tags. spec_scope s \<noteq> ''filter'') \<longrightarrow>
        GraphQLObjectType_fields_field_args extend' build context args = Inr args) \<and>
     (parameters source \<noteq> None \<and> connectionFilterSetofFunctions build \<and>
      (\<forall>s \<in> set tags. spec_scope s \<noteq> ''filter'') \<longrightarrow>
        GraphQLObjectType_fields_field_args extend' build context args =
          add_filter_arg extend' build context source args) \<and>
     ((\<exists>pre post. tags = pre @ ''+filter'' # post \<and>
         (\<forall>s \<in> set post. spec_scope s \<noteq> ''filter'')) \<longrightarrow>
        GraphQLObjectType_fields_field_args extend' build context args =
          add_filter_arg extend' build context source args) \<and>
     (parameters source = None \<and> (\<forall>s \<in> set tags. spec_scope s \<noteq> ''filter'') \<longrightarrow>
        GraphQLObjectType_fields_field_args extend' build context args =
          add_filter_arg extend' build context source args) \<and>
     ((\<exists>pre post. tags = pre @ ''-filter'' # post \<and>
         (\<forall>s \<in> set post. spec_scope s \<noteq> ''filter'')) \<longrightarrow>
        GraphQLObjectType_fields_field_args extend' build context args = Inr args) \<and>
     (\<not> behavior_matches build
          (pgGetBehavior build [extensions (source_codec source), source_extensions source])
          ''filter'' (defaultBehavior build source) \<longrightarrow>
        GraphQLObjectType_fields_field_args extend' build context args = Inr args)"
proof -
  have hook: "GraphQLObjectType_fields_field_args extend' build context args =
      (if behavior_matches_model tags ''filter'' (defaultBehavior build source)
       then add_filter_arg extend' build context source args else Inr args)"
    using listing source
    by (simp add: GraphQLObjectType_fields_field_args_def resolver tags
        pgGetBehavior_model_def)
  have scope: "spec_scope (defaultBehavior build source) = ''filter''"
    by (simp add: defaultBehavior_def spec_scope_def)
  have plus: "spec_scope ''+filter'' = ''filter''" "spec_positive ''+filter''"
    and minus: "spec_scope ''-filter'' = ''filter''" "\<not> spec_positive ''-filter''"
    by (simp_all add: spec_scope_def spec_positive_def)
  show ?thesis
  proof (intro conjI impI)
    assume "parameters source \<noteq> None \<and> \<not> connectionFilterSetofFunctions build \<and>
      (\<forall>s \<in> set tags. spec_scope s \<noteq> ''filter'')"
    then show "GraphQLObjectType_fields_field_args extend' build context args = Inr args"
      using matches_no_spec [of tags "''filter''" "defaultBehavior build source"] scope
      by (simp add: hook) (simp add: defaultBehavior_def spec_positive_def)
  next
    assume "parameters source \<noteq> None \<and> connectionFilterSetofFunctions build \<and>
      (\<forall>s \<in> set tags. spec_scope s \<noteq> ''filter'')"
    then show "GraphQLObjectType_fields_field_args extend' build context args =
          add_filter_arg extend' build context source args"
      using matches_no_spec [of tags "''filter''" "defaultBehavior build source"] scope
      by (simp add: hook) (simp add: defaultBehavior_def spec_positive_def)
  next
    assume "\<exists>pre post. tags = pre @ ''+filter'' # post \<and>
         (\<forall>s \<in> set post. spec_scope s \<noteq> ''filter'')"
    then obtain pre post where "tags = pre @ ''+filter'' # post"
      "\<forall>s \<in> set post. spec_scope s \<noteq> ''filter''" by blast
    from matches_last_spec [OF this(1) plus(1) this(2)] plus(2)
    show "GraphQLObjectType_fields_field_args extend' build context args =
          add_filter_arg extend' build context source args"
      by (simp add: hook)
  next
    assume "parameters source = None \<and> (\<forall>s \<in> set tags. spec_scope s \<noteq> ''filter'')"
    then show "GraphQLObjectType_fields_field_args extend' build context args =
          add_filter_arg extend' build context source args"
      using matches_no_spec [of tags "''filter''" "defaultBehavior build source"] scope
      by (simp add: hook) (simp add: defaultBehavior_def spec_positive_def)
  next
    assume "\<exists>pre post. tags = pre @ ''-filter'' # post \<and>
         (\<forall>s \<in> set post. spec_scope s \<noteq> ''filter'')"
    then obtain pre post where "tags = pre @ ''-filter'' # post"
      "\<forall>s \<in> set post. spec_scope s \<noteq> ''filter''" by blast
    from matches_last_spec [OF this(1) minus(1) this(2)] minus(2)
    show "GraphQLObjectType_fields_field_args extend' build context args = Inr args"
      by (simp add: hook)
  next
    assume "\<not> behavior_matches build
          (pgGetBehavior build [extensions (source_codec source), source_extensions source])
          ''filter'' (defaultBehavior build source)"
    then show "GraphQLObjectType_fields_field_args extend' build context args = Inr args"
      using listing source by (simp add: GraphQLObjectType_fields_field_args_def)
  qed
qed


lemma add_filter_arg_person:
  "source_codec source = person \<Longrightarrow>
   add_filter_arg extend_model (build0\<lparr>connectionFilterSetofFunctions := b\<rparr>)
     (listing source) source [] =
     Inr [(''filter'',
           \<lparr>arg_description =
              ''A filter to be used in determining which values should be returned by the collection.'',
            arg_type = GraphQLNamedType ''PersonFilter'',
            arg_plan = PlanOfConnection (\<lambda>c. wherePlan (getSubplan c))\<rparr>)]"
  by (simp add: add_filter_arg_def build0_def typeName0_def person_def listing_def
      extend_model_def Let_def)

theorem default_filterability_witness:
  "parameters search_people \<noteq> None \<and> \<not> connectionFilterSetofFunctions build0 \<and>
   GraphQLObjectType_fields_field_args extend_model build0 (listing search_people) [] =
     Inr [] \<and>
   \<not> behavior_matches build0
       (pgGetBehavior build0
          [extensions (source_codec search_people), source_extensions search_people])
       ''filter'' (defaultBehavior build0 search_people) \<and>
   GraphQLObjectType_fields_field_args extend_model
       (build0\<lparr>connectionFilterSetofFunctions := True\<rparr>) (listing search_people) [] =
     Inr [(''filter'',
           \<lparr>arg_description =
              ''A filter to be used in determining which values should be returned by the collection.'',
            arg_type = GraphQLNamedType ''PersonFilter'',
            arg_plan = PlanOfConnection (\<lambda>c. wherePlan (getSubplan c))\<rparr>)] \<and>
   GraphQLObjectType_fields_field_args extend_model build0
       (listing (search_people\<lparr>source_extensions := [''+filter'']\<rparr>)) [] =
     Inr [(''filter'',
           \<lparr>arg_description =
              ''A filter to be used in determining which values should be returned by the collection.'',
            arg_type = GraphQLNamedType ''PersonFilter'',
            arg_plan = PlanOfConnection (\<lambda>c. wherePlan (getSubplan c))\<rparr>)] \<and>
   parameters people = None \<and>
   GraphQLObjectType_fields_field_args extend_model build0 (listing people) [] =
     Inr [(''filter'',
           \<lparr>arg_description =
              ''A filter to be used in determining which values should be returned by the collection.'',
            arg_type = GraphQLNamedType ''PersonFilter'',
            arg_plan = PlanOfConnection (\<lambda>c. wherePlan (getSubplan c))\<rparr>)] \<and>
   GraphQLObjectType_fields_field_args extend_model build0
       (listing (people\<lparr>source_extensions := [''-filter'']\<rparr>)) [] = Inr []"
proof -
  have ext: "extensions person = []"
    by (simp add: person_def)
  have b: "behavior_matches (build0\<lparr>connectionFilterSetofFunctions := t\<rparr>) =
      behavior_matches_model"
    "pgGetBehavior (build0\<lparr>connectionFilterSetofFunctions := t\<rparr>) = pgGetBehavior_model"
    "connectionFilterSetofFunctions (build0\<lparr>connectionFilterSetofFunctions := t\<rparr>) = t"
    "\<not> connectionFilterSetofFunctions build0" for t
    by (simp_all add: build0_def)
  have l: "isPgFieldConnection (listing s) \<or> isPgFieldSimpleCollection (listing s)"
    "pgSource (listing s) = Some s" for s
    by (simp_all add: listing_def)
  note procedure = default_filterability
    [OF build0_lookups(6) build0_lookups(5) l(1) [of search_people] l(2) [of search_people]
      refl, of extend_model "[]"]
  note setof = default_filterability
    [OF b(1) [of True] b(2) [of True] l(1) [of search_people] l(2) [of search_people] refl,
      of extend_model "[]"]
  note opted_in = default_filterability
    [OF build0_lookups(6) build0_lookups(5)
      l(1) [of "search_people\<lparr>source_extensions := [''+filter'']\<rparr>"]
      l(2) [of "search_people\<lparr>source_extensions := [''+filter'']\<rparr>"] refl,
      of extend_model "[]"]
  note plain = default_filterability
    [OF build0_lookups(6) build0_lookups(5) l(1) [of people] l(2) [of people] refl,
      of extend_model "[]"]
  note opted_out = default_filterability
    [OF build0_lookups(6) build0_lookups(5)
      l(1) [of "people\<lparr>source_extensions := [''-filter'']\<rparr>"]
      l(2) [of "people\<lparr>source_extensions := [''-filter'']\<rparr>"] refl,
      of extend_model "[]"]
  have last_spec: "\<exists>pre post. [t] = pre @ t # post \<and>
      (\<forall>s \<in> set post. spec_scope s \<noteq> ''filter'')" for t :: string
    by (rule exI [of _ "[]"], rule exI [of _ "[]"]) simp
  have 1: "parameters search_people \<noteq> None" "\<not> connectionFilterSetofFunctions build0"
    "GraphQLObjectType_fields_field_args extend_model build0 (listing search_people) [] = Inr []"
    using procedure by (simp_all add: search_people_def ext b)
  have 2: "\<not> behavior_matches build0
       (pgGetBehavior build0
          [extensions (source_codec search_people), source_extensions search_people])
       ''filter'' (defaultBehavior build0 search_people)"
    by (simp add: build0_lookups search_people_def ext defaultBehavior_def b
        pgGetBehavior_model_def behavior_matches_model_def spec_scope_def spec_positive_def)
  have 3: "GraphQLObjectType_fields_field_args extend_model
       (build0\<lparr>connectionFilterSetofFunctions := True\<rparr>) (listing search_people) [] =
     add_filter_arg extend_model (build0\<lparr>connectionFilterSetofFunctions := True\<rparr>)
       (listing search_people) search_people []"
    using setof by (simp add: search_people_def ext b)
  have 4: "GraphQLObjectType_fields_field_args extend_model build0
       (listing (search_people\<lparr>source_extensions := [''+filter'']\<rparr>)) [] =
     add_filter_arg extend_model build0
       (listing (search_people\<lparr>source_extensions := [''+filter'']\<rparr>))
       (search_people\<lparr>source_extensions := [''+filter'']\<rparr>) []"
    using opted_in [THEN conjunct2, THEN conjunct2, THEN conjunct1] last_spec [of "''+filter''"]
    by (simp add: search_people_def ext)
  have 5: "parameters people = None"
    "GraphQLObjectType_fields_field_args extend_model build0 (listing people) [] =
     add_filter_arg extend_model build0 (listing people) people []"
    using plain by (simp_all add: people_def ext)
  have 6: "GraphQLObjectType_fields_field_args extend_model build0
       (listing (people\<lparr>source_extensions := [''-filter'']\<rparr>)) [] = Inr []"
    using opted_out [THEN conjunct2, THEN conjunct2, THEN conjunct2, THEN conjunct2,
        THEN conjunct1] last_spec [of "''-filter''"]
    by (simp add: people_def ext)
  have codecs: "source_codec search_people = person" "source_codec people = person"
    "source_codec (search_people\<lparr>source_extensions := [''+filter'']\<rparr>) = person"
    by (simp_all add: search_people_def people_def)
  have same: "build0\<lparr>connectionFilterSetofFunctions := False\<rparr> = build0"
    by (simp add: build0_def)
  note added = add_filter_arg_person [OF codecs(1), of True]
    add_filter_arg_person [OF codecs(3), of False, unfolded same]
    add_filter_arg_person [OF codecs(2), of False, unfolded same]
  from 1 2 3 4 5 6 added show ?thesis by simp
qed

end
